theory Spec2Isabelle
  imports Main
begin

section \<open>Strings as the migrators use them\<close>

text \<open>
  JavaScript strings are modelled as \<^typ>\<open>string\<close>, a list of characters.  A
  character of the model is a UTF-16 code unit below \<open>U+0100\<close> (the Latin-1 range,
  whose lower half is ASCII); a JavaScript string with a higher code unit is not
  represented.  A value of type \<open>string | null\<close> is a \<^typ>\<open>string option\<close>.
  JavaScript treats both \<open>null\<close> and the empty string as false in a condition.
\<close>

definition truthy :: "string option \<Rightarrow> bool" where
  "truthy v = (case v of None \<Rightarrow> False | Some s \<Rightarrow> s \<noteq> [])"

text \<open>\<open>a || b\<close> on strings: the left operand unless it is null or empty.\<close>

definition or_else :: "string option \<Rightarrow> string \<Rightarrow> string" where
  "or_else v d = (case v of None \<Rightarrow> d | Some s \<Rightarrow> if s = [] then d else s)"

text \<open>
  \<open>toLowerCase\<close> on these code units: the letters \<open>A\<close> to \<open>Z\<close> and the
  Latin-1 capital letters \<open>U+00C0\<close> to \<open>U+00DE\<close> (without the multiplication sign
  \<open>U+00D7\<close>) move up by \<open>0x20\<close>; every other code unit below \<open>U+0100\<close> is
  its own lower case.
\<close>

definition latin1_upper :: string where
  "latin1_upper =
     [
      CHR 0xC0, CHR 0xC1, CHR 0xC2, CHR 0xC3, CHR 0xC4, CHR 0xC5, CHR 0xC6, CHR 0xC7,
      CHR 0xC8, CHR 0xC9, CHR 0xCA, CHR 0xCB, CHR 0xCC, CHR 0xCD, CHR 0xCE, CHR 0xCF,
      CHR 0xD0, CHR 0xD1, CHR 0xD2, CHR 0xD3, CHR 0xD4, CHR 0xD5, CHR 0xD6, CHR 0xD8,
      CHR 0xD9, CHR 0xDA, CHR 0xDB, CHR 0xDC, CHR 0xDD, CHR 0xDE]"

definition latin1_lower :: string where
  "latin1_lower =
     [
      CHR 0xE0, CHR 0xE1, CHR 0xE2, CHR 0xE3, CHR 0xE4, CHR 0xE5, CHR 0xE6, CHR 0xE7,
      CHR 0xE8, CHR 0xE9, CHR 0xEA, CHR 0xEB, CHR 0xEC, CHR 0xED, CHR 0xEE, CHR 0xEF,
      CHR 0xF0, CHR 0xF1, CHR 0xF2, CHR 0xF3, CHR 0xF4, CHR 0xF5, CHR 0xF6, CHR 0xF8,
      CHR 0xF9, CHR 0xFA, CHR 0xFB, CHR 0xFC, CHR 0xFD, CHR 0xFE]"

definition lower_char :: "char \<Rightarrow> char" where
  "lower_char c =
     (case map_of (zip (''ABCDEFGHIJKLMNOPQRSTUVWXYZ'' @ latin1_upper)
                       (''abcdefghijklmnopqrstuvwxyz'' @ latin1_lower)) c of
        None \<Rightarrow> c
      | Some d \<Rightarrow> d)"

definition toLowerCase :: "string \<Rightarrow> string" where
  "toLowerCase s = map lower_char s"

text \<open>
  The white space that \<open>trim\<close> removes and that \<open>\s\<close> matches, below
  \<open>U+0100\<close>: space, tab, line feed, vertical tab, form feed, carriage return and the
  no-break space \<open>U+00A0\<close>.
\<close>

definition is_space :: "char \<Rightarrow> bool" where
  "is_space c =
     (c \<in> set [CHR '' '', CHR 0x09, CHR 0x0A, CHR 0x0B, CHR 0x0C, CHR 0x0D, CHR 0xA0])"

definition trim :: "string \<Rightarrow> string" where
  "trim s = rev (dropWhile is_space (rev (dropWhile is_space s)))"

definition startsWith :: "string \<Rightarrow> string \<Rightarrow> bool" where
  "startsWith s p = (take (length p) s = p)"

text \<open>\<open>s.substring(n)\<close> and \<open>s.substring(0, n)\<close> for a natural number \<open>n\<close>.\<close>

definition substring_from :: "nat \<Rightarrow> string \<Rightarrow> string" where
  "substring_from n s = drop n s"

definition substring_to :: "nat \<Rightarrow> string \<Rightarrow> string" where
  "substring_to n s = take n s"

text \<open>\<open>s.includes(p)\<close>: \<open>p\<close> occurs in \<open>s\<close> as a contiguous substring.\<close>

fun str_includes :: "string \<Rightarrow> string \<Rightarrow> bool" where
  "str_includes [] p = (p = [])"
| "str_includes (c # cs) p = (startsWith (c # cs) p \<or> str_includes cs p)"

text \<open>\<open>s.split(sep)\<close> for a one-character separator: the pieces between separators.\<close>

fun split_on :: "char \<Rightarrow> string \<Rightarrow> string list" where
  "split_on sep [] = [[]]"
| "split_on sep (c # cs) =
     (if c = sep then [] # split_on sep cs
      else (case split_on sep cs of
              [] \<Rightarrow> [[c]]
            | p # ps \<Rightarrow> (c # p) # ps))"

text \<open>A string of ASCII characters only (code units below \<open>U+0080\<close>).\<close>

definition is_ascii :: "string \<Rightarrow> bool" where
  "is_ascii s = list_all (\<lambda>c. \<not> digit7 c) s"

text \<open>\<open>s.padEnd(n, c)\<close> for a one-character filler.\<close>

definition padEnd :: "nat \<Rightarrow> char \<Rightarrow> string \<Rightarrow> string" where
  "padEnd n c s = s @ replicate (n - length s) c"

section \<open>Identifier Normalizer\<close>

text \<open>
  \<open>id.replace(/-/g, "")\<close> removes every dash;  the regular expressions
  \<open>/^[0-9a-f]{32}$/i\<close> and \<open>/^[0-9a-f]{24}$/i\<close> accept exactly the strings of
  that length made of hexadecimal digits of either case.
\<close>

definition strip_dashes :: "string \<Rightarrow> string" where
  "strip_dashes s = filter (\<lambda>c. c \<noteq> CHR ''-'') s"

definition is_lower_hex_digit :: "char \<Rightarrow> bool" where
  "is_lower_hex_digit c = (c \<in> set ''0123456789abcdef'')"

definition is_hex_digit :: "char \<Rightarrow> bool" where
  "is_hex_digit c = (is_lower_hex_digit c \<or> c \<in> set ''ABCDEF'')"

definition hex_string :: "nat \<Rightarrow> string \<Rightarrow> bool" where
  "hex_string n s = (length s = n \<and> list_all is_hex_digit s)"

text \<open>
  \<open>normalizeUuid\<close> of the position and contact migrators (the two copies are identical).
  Its \<open>catch\<close> branch is unreachable on strings and returns \<open>null\<close> as well.
\<close>

definition normalizeUuid :: "string option \<Rightarrow> string option" where
  "normalizeUuid v =
     (if \<not> truthy v then None
      else (let normalizedId = strip_dashes (the v) in
            if hex_string 32 normalizedId then Some normalizedId
            else if hex_string 24 normalizedId then Some (padEnd 32 CHR ''0'' normalizedId)
            else None))"

text \<open>
  \<open>normalizeDomain\<close> of the position and contact migrators: lower case, trimmed, and a
  leading \<open>www.\<close> removed.
\<close>

definition normalizeDomain :: "string \<Rightarrow> string" where
  "normalizeDomain domain =
     (if domain = [] then []
      else (let normalized = trim (toLowerCase domain) in
            if startsWith normalized ''www.'' then substring_from 4 normalized
            else normalized))"

section \<open>The two stores\<close>

text \<open>
  The rows of the target store carry the columns the migrators read or decide on;
  timestamps, audit columns and the columns copied through unchanged are left out.
  Rows are kept in table order, and a query without \<open>orderBy\<close> returns the first row in
  that order that satisfies its \<open>where\<close> clause.  Identifiers, domains and addresses are
  compared as strings; a comparison with \<open>mode: "insensitive"\<close> compares the lower-case
  forms, which is what the store does on ASCII text whatever its collation.
\<close>

record company_row =
  c_id :: string
  c_name :: string
  c_website :: string
  c_domain :: string
  c_status :: string
  c_is_deleted :: bool

text \<open>The projection \<open>select: {id, name, status, is_deleted}\<close> of a company row.\<close>

record company_ref =
  r_id :: string
  r_name :: string
  r_status :: string
  r_is_deleted :: bool

definition select_company :: "company_row \<Rightarrow> company_ref" where
  "select_company c =
     \<lparr>r_id = c_id c, r_name = c_name c, r_status = c_status c, r_is_deleted = c_is_deleted c\<rparr>"

record position_row =
  p_id :: string
  p_title :: string
  p_description :: "string option"
  p_company_id :: string
  p_company_name :: string
  p_is_company_deleted :: bool
  p_company_status :: string
  p_job_role_id :: nat

record jobRole_row =
  jr_id :: nat
  jr_title_display :: string
  jr_title_normalized :: string
  jr_role_description :: string

record contact_row =
  ct_id :: string
  ct_name :: string
  ct_job_title :: string
  ct_company_id :: string
  ct_email :: "string option"
  ct_email_status :: string

record emailStatus_row =
  es_value :: string
  es_key :: string

record status_row =
  st_field_display_name :: string
  st_key :: string
  st_value :: string

record lead_row =
  l_id :: string
  l_email :: string
  l_company_id :: "string option"
  l_company_name :: "string option"
  l_status :: string
  l_is_pending :: bool
  l_is_stuck :: bool

record NewSchema =
  company :: "company_row list"
  position :: "position_row list"
  jobRole :: "jobRole_row list"
  contact :: "contact_row list"
  contactEmailStatus :: "emailStatus_row list"
  companyStatus :: "status_row list"
  leadStatus :: "status_row list"
  lead :: "lead_row list"

text \<open>The legacy records, with the fields of the old schema that the migrators read.\<close>

record old_company =
  oc_id :: string
  oc_domain :: string
  oc_raw_body :: "string option"
  oc_isDeleted :: bool

record old_lead =
  ol_id :: string
  ol_email :: string
  ol_companyId :: "string option"
  ol_isPending :: bool
  ol_isStuck :: bool

record old_position =
  op_id :: string
  op_companyId :: "string option"
  op_position_title :: string
  op_job_description :: "string option"

record old_contact =
  oct_id :: string
  oct_companyId :: "string option"
  oct_first_name :: "string option"
  oct_last_name :: "string option"
  oct_full_name :: "string option"
  oct_title :: "string option"
  oct_email_status :: "string option"
  oct_email :: "string option"

record OldSchema =
  companies :: "old_company list"

text \<open>
  An exception thrown by the database client: its \<open>code\<close> (\<open>P2002\<close> unique constraint,
  \<open>P2000\<close> value too long, \<open>P2023\<close> inconsistent column data, or anything else) and
  the column names of \<open>meta.target\<close>.
\<close>

datatype db_error = DbError (err_code: string) (err_target: "string list")

text \<open>The statistics ledger; the position and the contact migrator each keep one, with
  the failure categories of both collected in one record.\<close>

record CompanyMatches =
  byId :: nat
  byDomain :: nat

record Failures =
  uuidFormat :: nat
  missingCompany :: nat
  missingJobRole :: nat
  emailStatusError :: nat
  duplicateEmail :: nat
  dataValidation :: nat
  dbError :: nat
  other :: nat

record MigrationStats =
  total :: nat
  successful :: nat
  duplicates :: nat
  failed :: nat
  companyMatches :: CompanyMatches
  failures :: Failures

text \<open>
  Every call to the database client is recorded, so that the order of the queries a
  function issues can be stated.
\<close>

datatype db_op =
    Company_findFirst_id string
  | Company_findFirst_domain string
  | Company_findFirst_OR string string string
  | Company_findUnique_id string
  | Company_findUnique_domain string
  | Company_upsert string
  | OldCompanies_findUnique string
  | OldCompanies_findMany
  | Position_findUnique string
  | Position_create string
  | JobRole_findFirst string
  | JobRole_create string
  | Contact_findUnique string
  | Contact_findFirst_email string string
  | Contact_create string
  | ContactEmailStatus_findFirst string
  | ContactEmailStatus_create string
  | CompanyStatus_findUnique_key string
  | CompanyStatus_findUnique_value string
  | CompanyStatus_create string string
  | LeadStatus_findUnique_key string
  | LeadStatus_create string string
  | Lead_findUnique_email string
  | Lead_create string
  | Disconnect_old
  | Disconnect_new

text \<open>
  The state a migrator runs in: the target store, the source store, the statistics
  ledger, the calls made so far, and a fault schedule.  The schedule says, for the
  \<open>n\<close>-th call to the database client, whether the call throws and what: constraint
  violations, values rejected as too long, connectivity errors and every other rejection
  by the database are faults.  A call that does not throw reads or writes the tables.
\<close>

record world =
  newdb :: NewSchema
  olddb :: OldSchema
  stats :: MigrationStats
  calls :: "db_op list"
  faults :: "nat \<Rightarrow> db_error option"

definition new_call ::
  "db_op \<Rightarrow> (NewSchema \<Rightarrow> 'a \<times> NewSchema) \<Rightarrow> world \<Rightarrow> (db_error + 'a) \<times> world" where
  "new_call opn f w =
     (let w1 = w\<lparr>calls := calls w @ [opn]\<rparr> in
      case faults w (length (calls w)) of
        Some e \<Rightarrow> (Inl e, w1)
      | None \<Rightarrow> (case f (newdb w) of (a, db') \<Rightarrow> (Inr a, w1\<lparr>newdb := db'\<rparr>)))"

definition old_call ::
  "db_op \<Rightarrow> (OldSchema \<Rightarrow> 'a) \<Rightarrow> world \<Rightarrow> (db_error + 'a) \<times> world" where
  "old_call opn f w =
     (let w1 = w\<lparr>calls := calls w @ [opn]\<rparr> in
      case faults w (length (calls w)) of
        Some e \<Rightarrow> (Inl e, w1)
      | None \<Rightarrow> (Inr (f (olddb w)), w1))"

text \<open>Case-insensitive comparison and containment (\<open>mode: "insensitive"\<close>).\<close>

definition equals_insensitive :: "string \<Rightarrow> string \<Rightarrow> bool" where
  "equals_insensitive a b = (toLowerCase a = toLowerCase b)"

definition contains_insensitive :: "string \<Rightarrow> string \<Rightarrow> bool" where
  "contains_insensitive a b = str_includes (toLowerCase a) (toLowerCase b)"

subsection \<open>Queries on the company table\<close>

definition company_findFirst_id :: "string \<Rightarrow> world \<Rightarrow> (db_error + company_ref option) \<times> world" where
  "company_findFirst_id i =
     new_call (Company_findFirst_id i)
       (\<lambda>db. (map_option select_company (find (\<lambda>c. c_id c = i) (company db)), db))"

definition company_findFirst_domain :: "string \<Rightarrow> world \<Rightarrow> (db_error + company_ref option) \<times> world" where
  "company_findFirst_domain d =
     new_call (Company_findFirst_domain d)
       (\<lambda>db. (map_option select_company (find (\<lambda>c. c_domain c = d) (company db)), db))"

text \<open>The one query with \<open>OR: [equals v0, equals v1, contains d]\<close>, all case-insensitive.\<close>

definition or_match :: "string \<Rightarrow> string \<Rightarrow> string \<Rightarrow> company_row \<Rightarrow> bool" where
  "or_match v0 v1 d c =
     (equals_insensitive (c_domain c) v0
      \<or> equals_insensitive (c_domain c) v1
      \<or> contains_insensitive (c_domain c) d)"

definition company_findFirst_OR ::
  "string \<Rightarrow> string \<Rightarrow> string \<Rightarrow> world \<Rightarrow> (db_error + company_ref option) \<times> world" where
  "company_findFirst_OR v0 v1 d =
     new_call (Company_findFirst_OR v0 v1 d)
       (\<lambda>db. (map_option select_company (find (or_match v0 v1 d) (company db)), db))"

definition company_findUnique_id :: "string \<Rightarrow> world \<Rightarrow> (db_error + company_row option) \<times> world" where
  "company_findUnique_id i =
     new_call (Company_findUnique_id i) (\<lambda>db. (find (\<lambda>c. c_id c = i) (company db), db))"

definition company_findUnique_domain :: "string \<Rightarrow> world \<Rightarrow> (db_error + company_row option) \<times> world" where
  "company_findUnique_domain d =
     new_call (Company_findUnique_domain d) (\<lambda>db. (find (\<lambda>c. c_domain c = d) (company db), db))"

text \<open>\<open>upsert\<close> by identifier: the row with that identifier is replaced, or the row is
  added when there is none.\<close>

definition upsert_rows :: "company_row \<Rightarrow> company_row list \<Rightarrow> company_row list" where
  "upsert_rows row T =
     (if \<exists>c \<in> set T. c_id c = c_id row
      then map (\<lambda>c. if c_id c = c_id row then row else c) T
      else T @ [row])"

definition company_upsert :: "company_row \<Rightarrow> world \<Rightarrow> (db_error + unit) \<times> world" where
  "company_upsert row =
     new_call (Company_upsert (c_id row))
       (\<lambda>db. ((), db\<lparr>company := upsert_rows row (company db)\<rparr>))"

definition oldCompanies_findUnique :: "string \<Rightarrow> world \<Rightarrow> (db_error + old_company option) \<times> world" where
  "oldCompanies_findUnique i =
     old_call (OldCompanies_findUnique i) (\<lambda>db. find (\<lambda>c. oc_id c = i) (companies db))"

section \<open>Reference Resolver\<close>

definition inc_byId :: "world \<Rightarrow> world" where
  "inc_byId w = w\<lparr>stats := (stats w)\<lparr>companyMatches :=
                   (companyMatches (stats w))\<lparr>byId := byId (companyMatches (stats w)) + 1\<rparr>\<rparr>\<rparr>"

definition inc_byDomain :: "world \<Rightarrow> world" where
  "inc_byDomain w = w\<lparr>stats := (stats w)\<lparr>companyMatches :=
                   (companyMatches (stats w))\<lparr>byDomain := byDomain (companyMatches (stats w)) + 1\<rparr>\<rparr>\<rparr>"

text \<open>The two entries of \<open>domainVariants\<close>: the normalized domain, and the same with
  \<open>www.\<close> removed if it starts with it, added otherwise.\<close>

definition domainVariants :: "string \<Rightarrow> string \<times> string" where
  "domainVariants normalizedDomain =
     (normalizedDomain,
      if startsWith normalizedDomain ''www.'' then substring_from 4 normalizedDomain
      else ''www.'' @ normalizedDomain)"

text \<open>
  The second half of \<open>findCompany\<close>, entered when the lookup by identifier found nothing
  or the identifier was malformed: fetch the source company, normalize its domain, query
  the target store by that domain.  A thrown error ends the search with \<open>null\<close>.
\<close>

definition findCompany_byDomain :: "string \<Rightarrow> world \<Rightarrow> company_ref option \<times> world" where
  "findCompany_byDomain oldCompanyId w =
     (case oldCompanies_findUnique oldCompanyId w of
        (Inl e, w1) \<Rightarrow> (None, w1)
      | (Inr None, w1) \<Rightarrow> (None, w1)
      | (Inr (Some oldCompany), w1) \<Rightarrow>
          (if oc_domain oldCompany = [] then (None, w1)
           else (let normalizedDomain = normalizeDomain (oc_domain oldCompany) in
             if normalizedDomain = [] then (None, w1)
             else (case company_findFirst_domain normalizedDomain w1 of
                (Inl e, w2) \<Rightarrow> (None, w2)
              | (Inr (Some companyByDomain), w2) \<Rightarrow> (Some companyByDomain, inc_byDomain w2)
              | (Inr None, w2) \<Rightarrow>
                  (case company_findFirst_OR (fst (domainVariants normalizedDomain))
                          (snd (domainVariants normalizedDomain)) normalizedDomain w2 of
                     (Inl e, w3) \<Rightarrow> (None, w3)
                   | (Inr (Some companyByDomain), w3) \<Rightarrow>
                       (Some companyByDomain, inc_byDomain w3)
                   | (Inr None, w3) \<Rightarrow> (None, w3))))))"

text \<open>\<open>findCompany\<close> of the position and contact migrators (the two copies are identical).\<close>

definition findCompany :: "string option \<Rightarrow> world \<Rightarrow> company_ref option \<times> world" where
  "findCompany oldCompanyId w =
     (if \<not> truthy oldCompanyId then (None, w)
      else (case normalizeUuid oldCompanyId of
              None \<Rightarrow> findCompany_byDomain (the oldCompanyId) w
            | Some normalizedId \<Rightarrow>
                (case company_findFirst_id normalizedId w of
                   (Inl e, w1) \<Rightarrow> (None, w1)
                 | (Inr (Some companyById), w1) \<Rightarrow> (Some companyById, inc_byId w1)
                 | (Inr None, w1) \<Rightarrow> findCompany_byDomain (the oldCompanyId) w1)))"

section \<open>Statistics ledger updates\<close>

datatype failure_kind =
    UuidFormat | MissingCompany | MissingJobRole | EmailStatusError
  | DuplicateEmail | DataValidation | DbErrorKind | Other

fun inc_failure :: "failure_kind \<Rightarrow> Failures \<Rightarrow> Failures" where
  "inc_failure UuidFormat f = f\<lparr>uuidFormat := uuidFormat f + 1\<rparr>"
| "inc_failure MissingCompany f = f\<lparr>missingCompany := missingCompany f + 1\<rparr>"
| "inc_failure MissingJobRole f = f\<lparr>missingJobRole := missingJobRole f + 1\<rparr>"
| "inc_failure EmailStatusError f = f\<lparr>emailStatusError := emailStatusError f + 1\<rparr>"
| "inc_failure DuplicateEmail f = f\<lparr>duplicateEmail := duplicateEmail f + 1\<rparr>"
| "inc_failure DataValidation f = f\<lparr>dataValidation := dataValidation f + 1\<rparr>"
| "inc_failure DbErrorKind f = f\<lparr>dbError := dbError f + 1\<rparr>"
| "inc_failure Other f = f\<lparr>other := other f + 1\<rparr>"

text \<open>\<open>stats.total++\<close>, \<open>stats.successful++\<close>, \<open>stats.duplicates++\<close>, and the pair
  \<open>stats.failed++; stats.failures.k++\<close>.\<close>

definition inc_total :: "world \<Rightarrow> world" where
  "inc_total w = w\<lparr>stats := (stats w)\<lparr>total := total (stats w) + 1\<rparr>\<rparr>"

definition inc_successful :: "world \<Rightarrow> world" where
  "inc_successful w = w\<lparr>stats := (stats w)\<lparr>successful := successful (stats w) + 1\<rparr>\<rparr>"

definition inc_duplicates :: "world \<Rightarrow> world" where
  "inc_duplicates w = w\<lparr>stats := (stats w)\<lparr>duplicates := duplicates (stats w) + 1\<rparr>\<rparr>"

definition inc_failed :: "failure_kind \<Rightarrow> world \<Rightarrow> world" where
  "inc_failed k w =
     w\<lparr>stats := (stats w)\<lparr>failed := failed (stats w) + 1,
                             failures := inc_failure k (failures (stats w))\<rparr>\<rparr>"

text \<open>
  The string a per-record migration returns starts with \<open>Success\<close>, \<open>Duplicate\<close>,
  \<open>Failed\<close> or \<open>Error\<close>, and the orchestrator sorts results by that prefix; the
  result is modelled by its prefix and the identifier the message names.
\<close>

datatype migration_result = Success string | Duplicate string | Failed string | Error string

section \<open>Position migrator\<close>

definition is_word_char :: "char \<Rightarrow> bool" where
  "is_word_char c =
     (c \<in> set ''abcdefghijklmnopqrstuvwxyzABCDEFGHIJKLMNOPQRSTUVWXYZ0123456789_'')"

text \<open>\<open>s.replace(/\s+/g, "_")\<close>: every maximal run of white space becomes one underscore.\<close>

function replace_spaces :: "string \<Rightarrow> string" where
  "replace_spaces [] = []"
| "replace_spaces (c # cs) =
     (if is_space c then CHR ''_'' # replace_spaces (dropWhile is_space cs)
      else c # replace_spaces cs)"
  by pat_completeness auto
termination
  by (relation "measure length") (auto simp: length_dropWhile_le less_Suc_eq_le)

definition normalizeTitle :: "string \<Rightarrow> string" where
  "normalizeTitle title =
     trim (replace_spaces (filter (\<lambda>c. is_word_char c \<or> is_space c) (toLowerCase title)))"

definition position_findUnique :: "string \<Rightarrow> world \<Rightarrow> (db_error + position_row option) \<times> world" where
  "position_findUnique i =
     new_call (Position_findUnique i) (\<lambda>db. (find (\<lambda>r. p_id r = i) (position db), db))"

definition position_create :: "position_row \<Rightarrow> world \<Rightarrow> (db_error + unit) \<times> world" where
  "position_create row =
     new_call (Position_create (p_id row)) (\<lambda>db. ((), db\<lparr>position := position db @ [row]\<rparr>))"

definition jobRole_findFirst :: "string \<Rightarrow> world \<Rightarrow> (db_error + jobRole_row option) \<times> world" where
  "jobRole_findFirst t =
     new_call (JobRole_findFirst t) (\<lambda>db. (find (\<lambda>r. jr_title_normalized r = t) (jobRole db), db))"

text \<open>\<open>jobRole.create\<close>: the store generates the identifier of the new row (here its
  position in the table); the hash column, a SHA-256 digest of the normalized title, is
  left out.\<close>

definition jobRole_create ::
  "string \<Rightarrow> string \<Rightarrow> string \<Rightarrow> world \<Rightarrow> (db_error + jobRole_row) \<times> world" where
  "jobRole_create title_display title_normalized role_description =
     new_call (JobRole_create title_display)
       (\<lambda>db. (let row = \<lparr>jr_id = length (jobRole db), jr_title_display = title_display,
                           jr_title_normalized = title_normalized,
                           jr_role_description = role_description\<rparr>
              in (row, db\<lparr>jobRole := jobRole db @ [row]\<rparr>)))"

text \<open>The creation half of \<open>findOrCreateJobRole\<close>: create the role; when the store
  rejects a value as too long (\<open>P2000\<close>), try once more with a shorter title and a
  generic description; give up with \<open>null\<close> on any other error.\<close>

definition createJobRole :: "string \<Rightarrow> string \<Rightarrow> string option \<Rightarrow> world \<Rightarrow> jobRole_row option \<times> world" where
  "createJobRole truncatedTitle normalizedTitle description w =
     (let jobRoleDescription = or_else description (truncatedTitle @ '' role'') in
      case jobRole_create truncatedTitle normalizedTitle
             (substring_to 500 jobRoleDescription) w of
        (Inr newJobRole, w1) \<Rightarrow> (Some newJobRole, w1)
      | (Inl e, w1) \<Rightarrow>
          (if err_code e = ''P2000''
           then (let fallbackTitle = substring_to 100 truncatedTitle;
                     fallbackNormalizedTitle = substring_to 100 (normalizeTitle fallbackTitle)
                 in case jobRole_create fallbackTitle fallbackNormalizedTitle
                           ''Generic job role'' w1 of
                      (Inr fallbackJobRole, w2) \<Rightarrow> (Some fallbackJobRole, w2)
                    | (Inl fallbackError, w2) \<Rightarrow> (None, w2))
           else (None, w1)))"

definition findOrCreateJobRole :: "string \<Rightarrow> string option \<Rightarrow> world \<Rightarrow> jobRole_row option \<times> world" where
  "findOrCreateJobRole title description w =
     (let truncatedTitle = substring_to 200 title;
          normalizedTitle = substring_to 200 (normalizeTitle truncatedTitle)
      in case jobRole_findFirst normalizedTitle w of
           (Inr (Some existingJobRole), w1) \<Rightarrow> (Some existingJobRole, w1)
         | (Inr None, w1) \<Rightarrow> createJobRole truncatedTitle normalizedTitle description w1
         | (Inl e, w1) \<Rightarrow> createJobRole truncatedTitle normalizedTitle description w1)"

text \<open>
  \<open>migratePosition\<close>.  The location columns (a pure function of the legacy location) and
  the timestamps are not among the modelled columns.  An error thrown by the lookup of the
  existing position is classified by the inner \<open>catch\<close> when its code is \<open>P2023\<close>
  and by the outer \<open>catch\<close> otherwise.
\<close>

definition migratePosition :: "old_position \<Rightarrow> world \<Rightarrow> migration_result \<times> world" where
  "migratePosition oldPosition w0 =
     (let w = inc_total w0 in
      case normalizeUuid (Some (op_id oldPosition)) of
        None \<Rightarrow> (Failed (op_id oldPosition), inc_failed UuidFormat w)
      | Some normalizedId \<Rightarrow>
          (case position_findUnique normalizedId w of
             (Inl e, w1) \<Rightarrow>
               (if err_code e = ''P2023''
                then (Failed (op_id oldPosition), inc_failed UuidFormat w1)
                else (Error (op_id oldPosition), inc_failed Other w1))
           | (Inr (Some existingPosition), w1) \<Rightarrow> (Duplicate normalizedId, inc_duplicates w1)
           | (Inr None, w1) \<Rightarrow>
               (case findCompany (op_companyId oldPosition) w1 of
                  (None, w2) \<Rightarrow> (Failed normalizedId, inc_failed MissingCompany w2)
                | (Some company', w2) \<Rightarrow>
                    (case findOrCreateJobRole (op_position_title oldPosition)
                            (op_job_description oldPosition) w2 of
                       (None, w3) \<Rightarrow> (Failed normalizedId, inc_failed MissingJobRole w3)
                     | (Some jobRole', w3) \<Rightarrow>
                         (case position_create
                                 \<lparr>p_id = normalizedId,
                                  p_title = or_else (Some (op_position_title oldPosition))
                                              ''Untitled Position'',
                                  p_description =
                                    (if truthy (op_job_description oldPosition)
                                     then op_job_description oldPosition else None),
                                  p_company_id = r_id company',
                                  p_company_name = r_name company',
                                  p_is_company_deleted = r_is_deleted company',
                                  p_company_status = r_status company',
                                  p_job_role_id = jr_id jobRole'\<rparr> w3 of
                            (Inl e, w4) \<Rightarrow> (Failed normalizedId, inc_failed DataValidation w4)
                          | (Inr u, w4) \<Rightarrow> (Success normalizedId, inc_successful w4))))))"

section \<open>Contact migrator\<close>

definition contactEmailStatus_findFirst ::
  "string \<Rightarrow> world \<Rightarrow> (db_error + emailStatus_row option) \<times> world" where
  "contactEmailStatus_findFirst v =
     new_call (ContactEmailStatus_findFirst v)
       (\<lambda>db. (find (\<lambda>r. es_value r = v) (contactEmailStatus db), db))"

definition contactEmailStatus_create ::
  "string \<Rightarrow> string \<Rightarrow> world \<Rightarrow> (db_error + emailStatus_row) \<times> world" where
  "contactEmailStatus_create v k =
     new_call (ContactEmailStatus_create v)
       (\<lambda>db. (\<lparr>es_value = v, es_key = k\<rparr>,
              db\<lparr>contactEmailStatus := contactEmailStatus db @ [\<lparr>es_value = v, es_key = k\<rparr>]\<rparr>))"

text \<open>The \<open>catch\<close> branch of \<open>findOrCreateEmailStatus\<close>: fall back to the status
  \<open>unavailable\<close>, found or created; \<open>null\<close> when that throws as well.\<close>

definition fallbackEmailStatus :: "world \<Rightarrow> emailStatus_row option \<times> world" where
  "fallbackEmailStatus w =
     (case contactEmailStatus_findFirst ''unavailable'' w of
        (Inl fallbackError, w1) \<Rightarrow> (None, w1)
      | (Inr (Some existingFallback), w1) \<Rightarrow> (Some existingFallback, w1)
      | (Inr None, w1) \<Rightarrow>
          (case contactEmailStatus_create ''unavailable'' ''unavailable'' w1 of
             (Inl fallbackError, w2) \<Rightarrow> (None, w2)
           | (Inr newFallback, w2) \<Rightarrow> (Some newFallback, w2)))"

definition findOrCreateEmailStatus :: "string option \<Rightarrow> world \<Rightarrow> emailStatus_row option \<times> world" where
  "findOrCreateEmailStatus status w =
     (let emailStatus = or_else (map_option toLowerCase status) ''unavailable'' in
      case contactEmailStatus_findFirst emailStatus w of
        (Inl e, w1) \<Rightarrow> fallbackEmailStatus w1
      | (Inr (Some existingStatus), w1) \<Rightarrow> (Some existingStatus, w1)
      | (Inr None, w1) \<Rightarrow>
          (let statusKey = replace_spaces (toLowerCase emailStatus) in
           case contactEmailStatus_create emailStatus statusKey w1 of
             (Inl e, w2) \<Rightarrow> fallbackEmailStatus w2
           | (Inr newStatus, w2) \<Rightarrow> (Some newStatus, w2)))"

definition contact_findUnique :: "string \<Rightarrow> world \<Rightarrow> (db_error + contact_row option) \<times> world" where
  "contact_findUnique i =
     new_call (Contact_findUnique i) (\<lambda>db. (find (\<lambda>r. ct_id r = i) (contact db), db))"

text \<open>\<open>contact.findFirst({where: {email, id: {not: normalizedId}}})\<close>.\<close>

definition contact_findFirst_email ::
  "string \<Rightarrow> string \<Rightarrow> world \<Rightarrow> (db_error + contact_row option) \<times> world" where
  "contact_findFirst_email email notId =
     new_call (Contact_findFirst_email email notId)
       (\<lambda>db. (find (\<lambda>r. ct_email r = Some email \<and> ct_id r \<noteq> notId) (contact db), db))"

definition contact_create :: "contact_row \<Rightarrow> world \<Rightarrow> (db_error + unit) \<times> world" where
  "contact_create row =
     new_call (Contact_create (ct_id row)) (\<lambda>db. ((), db\<lparr>contact := contact db @ [row]\<rparr>))"

text \<open>
  The e-mail address written when another contact already holds \<open>contactEmail\<close>;
  \<open>randomStr\<close> is the value of \<open>Math.random().toString(36).substring(2, 8)\<close>.
\<close>

definition modifiedEmail :: "string \<Rightarrow> string \<Rightarrow> string" where
  "modifiedEmail contactEmail randomStr =
     (let emailParts = split_on CHR ''@'' contactEmail in
      if length emailParts = 2
      then emailParts ! 0 @ ''+'' @ randomStr @ ''@'' @ emailParts ! 1
      else contactEmail @ ''+'' @ randomStr)"


text \<open>The e-mail uniqueness step of \<open>migrateContact\<close>: the address to write, and the
  state after the check.  An error thrown by the check is swallowed and the original
  address kept.\<close>

definition uniqueEmail ::
  "string option \<Rightarrow> string \<Rightarrow> string \<Rightarrow> world \<Rightarrow> string option \<times> world" where
  "uniqueEmail contactEmail normalizedId randomStr w =
     (if \<not> truthy contactEmail then (contactEmail, w)
      else (case contact_findFirst_email (the contactEmail) normalizedId w of
              (Inl e, w1) \<Rightarrow> (contactEmail, w1)
            | (Inr None, w1) \<Rightarrow> (contactEmail, w1)
            | (Inr (Some existingEmail), w1) \<Rightarrow>
                (Some (modifiedEmail (the contactEmail) randomStr), w1)))"

text \<open>The classification of the outer \<open>catch\<close> of \<open>migrateContact\<close>.\<close>

definition contact_catch :: "old_contact \<Rightarrow> db_error \<Rightarrow> world \<Rightarrow> migration_result \<times> world" where
  "contact_catch oldContact e w =
     (if err_code e = ''P2002'' \<and> ''email'' \<in> set (err_target e)
      then (Failed (oct_id oldContact), inc_failed DuplicateEmail w)
      else if err_code e = ''P2000''
      then (Failed (oct_id oldContact), inc_failed DataValidation w)
      else (Error (oct_id oldContact), inc_failed Other w))"

definition contact_name :: "old_contact \<Rightarrow> string" where
  "contact_name oldContact =
     substring_to 250
       (or_else (oct_full_name oldContact)
          (or_else (Some (trim (or_else (oct_first_name oldContact) [] @ '' '' @
                                or_else (oct_last_name oldContact) [])))
             ''Unknown Contact''))"

definition migrateContact :: "string \<Rightarrow> old_contact \<Rightarrow> world \<Rightarrow> migration_result \<times> world" where
  "migrateContact randomStr oldContact w0 =
     (let w = inc_total w0 in
      case normalizeUuid (Some (oct_id oldContact)) of
        None \<Rightarrow> (Failed (oct_id oldContact), inc_failed UuidFormat w)
      | Some normalizedId \<Rightarrow>
          (case contact_findUnique normalizedId w of
             (Inl e, w1) \<Rightarrow>
               (if err_code e = ''P2023''
                then (Failed (oct_id oldContact), inc_failed UuidFormat w1)
                else contact_catch oldContact e w1)
           | (Inr (Some existingContact), w1) \<Rightarrow> (Duplicate normalizedId, inc_duplicates w1)
           | (Inr None, w1) \<Rightarrow>
               (case findCompany (oct_companyId oldContact) w1 of
                  (None, w2) \<Rightarrow> (Failed normalizedId, inc_failed MissingCompany w2)
                | (Some company', w2) \<Rightarrow>
                    (case findOrCreateEmailStatus (oct_email_status oldContact) w2 of
                       (None, w3) \<Rightarrow> (Failed normalizedId, inc_failed EmailStatusError w3)
                     | (Some emailStatus, w3) \<Rightarrow>
                         (case uniqueEmail (oct_email oldContact) normalizedId randomStr w3 of
                            (contactEmail, w4) \<Rightarrow>
                              (case contact_create
                                      \<lparr>ct_id = normalizedId,
                                       ct_name = contact_name oldContact,
                                       ct_job_title = substring_to 250
                                          (or_else (oct_title oldContact) ''Unknown Title''),
                                       ct_company_id = r_id company',
                                       ct_email = contactEmail,
                                       ct_email_status = es_value emailStatus\<rparr> w4 of
                                 (Inl e, w5) \<Rightarrow> contact_catch oldContact e w5
                               | (Inr u, w5) \<Rightarrow>
                                   (Success normalizedId, inc_successful w5)))))))"

section \<open>Lookup-Table Reconciler\<close>

definition COMPANY_STATUSES :: "(string \<times> string) list" where
  "COMPANY_STATUSES =
     [(''dh/contract_agreement_signed'', ''DH/Contract Agreement Signed''),
      (''no_recruitment_services_required'', ''No Recruitment Services Required''),
      (''potential_client'', ''Potential Client''),
      (''client_inactive/not_responding'', ''Client Inactive/Not Responding''),
      (''do_not_contact_email_received'', ''Do Not Contact Email Received''),
      (''position_not_being_filled_by_recruiters'', ''Position Not Being Filled By Recruiters''),
      (''client_backed_out'', ''Client Backed Out''),
      (''dh/contract_agreement_sent'', ''DH/Contract Agreement Sent''),
      (''clients_will_work_in_the_future'', ''Clients Will Work in the Future''),
      (''not_happy_with_terms'', ''Not happy With Terms''),
      (''pro-rated_refund_agreement'', ''Pro-Rated Refund Agreement''),
      (''job_closed_internally'', ''Job Closed Internally''),
      (''ready_to_dh_agreement'', ''Ready To DH Agreement''),
      (''client_wants_refund_policy'', ''Client Wants Refund Policy''),
      (''contract_terminated'', ''Contract Terminated'')]"

definition LEAD_STATUSES :: "(string \<times> string) list" where
  "LEAD_STATUSES =
     [(''new_lead'', ''New Lead''),
      (''converted_to_company'', ''Converted to Company''),
      (''in_progress'', ''In Progress''),
      (''failed'', ''Failed'')]"

definition companyStatus_findUnique_key ::
  "string \<Rightarrow> world \<Rightarrow> (db_error + status_row option) \<times> world" where
  "companyStatus_findUnique_key k =
     new_call (CompanyStatus_findUnique_key k)
       (\<lambda>db. (find (\<lambda>r. st_key r = k) (companyStatus db), db))"

definition companyStatus_findUnique_value ::
  "string \<Rightarrow> world \<Rightarrow> (db_error + status_row option) \<times> world" where
  "companyStatus_findUnique_value v =
     new_call (CompanyStatus_findUnique_value v)
       (\<lambda>db. (find (\<lambda>r. st_value r = v) (companyStatus db), db))"

definition companyStatus_create :: "string \<Rightarrow> string \<Rightarrow> world \<Rightarrow> (db_error + unit) \<times> world" where
  "companyStatus_create k v =
     new_call (CompanyStatus_create k v)
       (\<lambda>db. ((), db\<lparr>companyStatus := companyStatus db @
                 [\<lparr>st_field_display_name = ''company_status'', st_key = k, st_value = v\<rparr>]\<rparr>))"

definition leadStatus_findUnique_key ::
  "string \<Rightarrow> world \<Rightarrow> (db_error + status_row option) \<times> world" where
  "leadStatus_findUnique_key k =
     new_call (LeadStatus_findUnique_key k)
       (\<lambda>db. (find (\<lambda>r. st_key r = k) (leadStatus db), db))"

definition leadStatus_create :: "string \<Rightarrow> string \<Rightarrow> world \<Rightarrow> (db_error + unit) \<times> world" where
  "leadStatus_create k v =
     new_call (LeadStatus_create k v)
       (\<lambda>db. ((), db\<lparr>leadStatus := leadStatus db @
                 [\<lparr>st_field_display_name = ''leads_status'', st_key = k, st_value = v\<rparr>]\<rparr>))"

text \<open>
  \<open>ensureCompanyStatuses\<close> of the company migrator: the loop over the entries of
  \<open>COMPANY_STATUSES\<close>.  An error thrown by any call leaves the loop and is thrown again.
\<close>

fun ensureCompanyStatuses_loop ::
  "(string \<times> string) list \<Rightarrow> world \<Rightarrow> (db_error + unit) \<times> world" where
  "ensureCompanyStatuses_loop [] w = (Inr (), w)"
| "ensureCompanyStatuses_loop ((key, val) # rest) w =
     (case companyStatus_findUnique_key key w of
        (Inl e, w1) \<Rightarrow> (Inl e, w1)
      | (Inr (Some existingStatus), w1) \<Rightarrow> ensureCompanyStatuses_loop rest w1
      | (Inr None, w1) \<Rightarrow>
          (case companyStatus_create key val w1 of
             (Inl e, w2) \<Rightarrow> (Inl e, w2)
           | (Inr u, w2) \<Rightarrow> ensureCompanyStatuses_loop rest w2))"

definition ensureCompanyStatuses :: "world \<Rightarrow> (db_error + unit) \<times> world" where
  "ensureCompanyStatuses w = ensureCompanyStatuses_loop COMPANY_STATUSES w"

text \<open>\<open>ensureLeadStatuses\<close> of the lead migrator, of the same shape.\<close>

fun ensureLeadStatuses_loop ::
  "(string \<times> string) list \<Rightarrow> world \<Rightarrow> (db_error + unit) \<times> world" where
  "ensureLeadStatuses_loop [] w = (Inr (), w)"
| "ensureLeadStatuses_loop ((key, val) # rest) w =
     (case leadStatus_findUnique_key key w of
        (Inl e, w1) \<Rightarrow> (Inl e, w1)
      | (Inr (Some existingStatus), w1) \<Rightarrow> ensureLeadStatuses_loop rest w1
      | (Inr None, w1) \<Rightarrow>
          (case leadStatus_create key val w1 of
             (Inl e, w2) \<Rightarrow> (Inl e, w2)
           | (Inr u, w2) \<Rightarrow> ensureLeadStatuses_loop rest w2))"

definition ensureLeadStatuses :: "world \<Rightarrow> (db_error + unit) \<times> world" where
  "ensureLeadStatuses w = ensureLeadStatuses_loop LEAD_STATUSES w"

text \<open>
  \<open>ensureCompanyStatus\<close> of the interactive lead test script, for the one status
  \<open>potential_client\<close>: by key, then by value, then create.
\<close>

definition COMPANY_STATUS_KEY :: string where
  "COMPANY_STATUS_KEY = ''potential_client''"

definition COMPANY_STATUS_VALUE :: string where
  "COMPANY_STATUS_VALUE = ''Potential Client''"

definition ensureCompanyStatus :: "world \<Rightarrow> (db_error + unit) \<times> world" where
  "ensureCompanyStatus w =
     (case companyStatus_findUnique_key COMPANY_STATUS_KEY w of
        (Inl e, w1) \<Rightarrow> (Inl e, w1)
      | (Inr (Some existingStatus), w1) \<Rightarrow> (Inr (), w1)
      | (Inr None, w1) \<Rightarrow>
          (case companyStatus_findUnique_value COMPANY_STATUS_VALUE w1 of
             (Inl e, w2) \<Rightarrow> (Inl e, w2)
           | (Inr (Some existingStatus), w2) \<Rightarrow> (Inr (), w2)
           | (Inr None, w2) \<Rightarrow>
               companyStatus_create COMPANY_STATUS_KEY COMPANY_STATUS_VALUE w2))"

section \<open>Company migrator\<close>

text \<open>
  The fields of the parsed \<open>raw_body\<close> that \<open>transformCompany\<close> reads.  \<open>JSON.parse\<close>
  is a parameter: it gives the parsed payload, or nothing where it throws.
\<close>

record raw_body_json =
  rb_name :: "string option"
  rb_website_url :: "string option"

definition parseRawBody ::
  "(string \<Rightarrow> raw_body_json option) \<Rightarrow> string option \<Rightarrow> raw_body_json option" where
  "parseRawBody JSON_parse rawBodyStr =
     (if \<not> truthy rawBodyStr then None else JSON_parse (the rawBodyStr))"

definition DEFAULT_COMPANY_STATUS :: string where
  "DEFAULT_COMPANY_STATUS = ''Potential Client''"

definition determineCompanyStatus :: "old_company \<Rightarrow> raw_body_json option \<Rightarrow> string" where
  "determineCompanyStatus oldCompany rawBody = DEFAULT_COMPANY_STATUS"

definition transformCompany ::
  "(string \<Rightarrow> raw_body_json option) \<Rightarrow> old_company \<Rightarrow> company_row" where
  "transformCompany JSON_parse oldCompany =
     (let rawBody = parseRawBody JSON_parse (oc_raw_body oldCompany);
          status = determineCompanyStatus oldCompany rawBody;
          name = or_else (case rawBody of None \<Rightarrow> None | Some b \<Rightarrow> rb_name b)
                   (''Unknown Company ('' @ oc_domain oldCompany @ '')'');
          website = or_else (case rawBody of None \<Rightarrow> None | Some b \<Rightarrow> rb_website_url b)
                      (''http://'' @ oc_domain oldCompany)
      in \<lparr>c_id = oc_id oldCompany, c_name = name, c_website = website,
          c_domain = oc_domain oldCompany, c_status = status,
          c_is_deleted = oc_isDeleted oldCompany\<rparr>)"

record migration_counts =
  successCount :: nat
  existingCount :: nat
  errorCount :: nat

definition zero_counts :: migration_counts where
  "zero_counts = \<lparr>successCount = 0, existingCount = 0, errorCount = 0\<rparr>"

text \<open>The \<open>catch\<close> of the loop body: a unique-constraint violation on the given column
  counts as existing, any other error as a failure.\<close>

definition count_error :: "string \<Rightarrow> db_error \<Rightarrow> migration_counts \<Rightarrow> migration_counts" where
  "count_error column e n =
     (if err_code e = ''P2002'' \<and> column \<in> set (err_target e)
      then n\<lparr>existingCount := existingCount n + 1\<rparr>
      else n\<lparr>errorCount := errorCount n + 1\<rparr>)"

text \<open>The body of the loop of \<open>migrateCompanies\<close>, for one legacy company.\<close>

definition migrateCompany_step ::
  "(string \<Rightarrow> raw_body_json option) \<Rightarrow> old_company \<Rightarrow> migration_counts \<times> world
     \<Rightarrow> migration_counts \<times> world" where
  "migrateCompany_step JSON_parse oldCompany nw =
     (case nw of (n, w) \<Rightarrow>
       (let newCompany = transformCompany JSON_parse oldCompany in
        case company_findUnique_domain (c_domain newCompany) w of
          (Inl e, w1) \<Rightarrow> (count_error ''domain'' e n, w1)
        | (Inr existingCompany, w1) \<Rightarrow>
            (if existingCompany \<noteq> None \<and> c_id (the existingCompany) \<noteq> c_id newCompany
             then (n\<lparr>existingCount := existingCount n + 1\<rparr>, w1)
             else (case company_upsert newCompany w1 of
                     (Inl e, w2) \<Rightarrow> (count_error ''domain'' e n, w2)
                   | (Inr u, w2) \<Rightarrow> (n\<lparr>successCount := successCount n + 1\<rparr>, w2)))))"

definition oldCompanies_findMany :: "world \<Rightarrow> (db_error + old_company list) \<times> world" where
  "oldCompanies_findMany = old_call OldCompanies_findMany companies"

text \<open>The \<open>finally\<close> block: both clients are disconnected; an error thrown there leaves
  the function.\<close>

definition disconnect_clients :: "world \<Rightarrow> (db_error + unit) \<times> world" where
  "disconnect_clients w =
     (case old_call Disconnect_old (\<lambda>db. ()) w of
        (Inl e, w1) \<Rightarrow> (Inl e, w1)
      | (Inr u, w1) \<Rightarrow> new_call Disconnect_new (\<lambda>db. ((), db)) w1)"

text \<open>
  The \<open>try\<close> block of \<open>migrateCompanies\<close> with its \<open>catch\<close>: the counts of the final
  report when the block runs to its end, and nothing when an error thrown by the status
  seeding or by the read of the source table was caught and logged.  The batches are
  slices of the array read at the start, so the two nested loops visit every legacy
  company once, in order.
\<close>

definition migrateCompanies_try ::
  "(string \<Rightarrow> raw_body_json option) \<Rightarrow> world \<Rightarrow> migration_counts option \<times> world" where
  "migrateCompanies_try JSON_parse w =
     (case ensureCompanyStatuses w of
        (Inl e, w1) \<Rightarrow> (None, w1)
      | (Inr u, w1) \<Rightarrow>
          (case oldCompanies_findMany w1 of
             (Inl e, w2) \<Rightarrow> (None, w2)
           | (Inr oldCompanies, w2) \<Rightarrow>
               (case fold (migrateCompany_step JSON_parse) oldCompanies (zero_counts, w2) of
                  (n, w3) \<Rightarrow> (Some n, w3))))"

text \<open>\<open>migrateCompanies\<close>: the promise it returns is rejected only by an error thrown in
  the \<open>finally\<close> block.\<close>

definition migrateCompanies ::
  "(string \<Rightarrow> raw_body_json option) \<Rightarrow> world \<Rightarrow> (db_error + migration_counts option) \<times> world" where
  "migrateCompanies JSON_parse w =
     (case migrateCompanies_try JSON_parse w of
        (report, w1) \<Rightarrow>
          (case disconnect_clients w1 of
             (Inl e, w2) \<Rightarrow> (Inl e, w2)
           | (Inr u, w2) \<Rightarrow> (Inr report, w2)))"

text \<open>The script: \<open>migrateCompanies().then(() => process.exit(0)).catch(() => process.exit(1))\<close>.\<close>

definition company_script_exit_code ::
  "(string \<Rightarrow> raw_body_json option) \<Rightarrow> world \<Rightarrow> nat" where
  "company_script_exit_code JSON_parse w =
     (case fst (migrateCompanies JSON_parse w) of Inr report \<Rightarrow> 0 | Inl e \<Rightarrow> 1)"

section \<open>Lead migrator\<close>

definition DEFAULT_LEAD_STATUS :: string where
  "DEFAULT_LEAD_STATUS = ''new_lead''"

definition determineLeadStatus :: "old_lead \<Rightarrow> string" where
  "determineLeadStatus oldLead =
     (if ol_isStuck oldLead then ''failed''
      else if ol_isPending oldLead then ''in_progress''
      else if truthy (ol_companyId oldLead) then ''new_lead''
      else DEFAULT_LEAD_STATUS)"

definition transformLead :: "old_lead \<Rightarrow> string \<Rightarrow> company_row option \<Rightarrow> lead_row" where
  "transformLead oldLead status companyInNewSchema =
     \<lparr>l_id = ol_id oldLead, l_email = ol_email oldLead,
      l_company_id = (case companyInNewSchema of None \<Rightarrow> None
                      | Some c \<Rightarrow> if c_id c = [] then None else Some (c_id c)),
      l_company_name = (case companyInNewSchema of None \<Rightarrow> None
                      | Some c \<Rightarrow> if c_name c = [] then None else Some (c_name c)),
      l_status = status,
      l_is_pending = ol_isPending oldLead,
      l_is_stuck = ol_isStuck oldLead\<rparr>"

definition lead_findUnique_email :: "string \<Rightarrow> world \<Rightarrow> (db_error + lead_row option) \<times> world" where
  "lead_findUnique_email e =
     new_call (Lead_findUnique_email e) (\<lambda>db. (find (\<lambda>r. l_email r = e) (lead db), db))"

definition lead_create :: "lead_row \<Rightarrow> world \<Rightarrow> (db_error + unit) \<times> world" where
  "lead_create row =
     new_call (Lead_create (l_id row)) (\<lambda>db. ((), db\<lparr>lead := lead db @ [row]\<rparr>))"

text \<open>The end of the loop body of \<open>migrateOldLeads\<close>: transform, create, count.\<close>

definition lead_write ::
  "old_lead \<Rightarrow> string \<Rightarrow> company_row option \<Rightarrow> migration_counts \<Rightarrow> world
     \<Rightarrow> migration_counts \<times> world" where
  "lead_write oldLead status companyInNewSchema n w =
     (case lead_create (transformLead oldLead status companyInNewSchema) w of
        (Inl e, w1) \<Rightarrow> (count_error ''email'' e n, w1)
      | (Inr u, w1) \<Rightarrow> (n\<lparr>successCount := successCount n + 1\<rparr>, w1))"

text \<open>The body of the loop of \<open>migrateOldLeads\<close>, for one legacy lead.\<close>

definition migrateOldLead_step ::
  "old_lead \<Rightarrow> migration_counts \<times> world \<Rightarrow> migration_counts \<times> world" where
  "migrateOldLead_step oldLead nw =
     (case nw of (n, w) \<Rightarrow>
       (case lead_findUnique_email (ol_email oldLead) w of
          (Inl e, w1) \<Rightarrow> (count_error ''email'' e n, w1)
        | (Inr (Some existingLead), w1) \<Rightarrow> (n\<lparr>existingCount := existingCount n + 1\<rparr>, w1)
        | (Inr None, w1) \<Rightarrow>
            (let status = determineLeadStatus oldLead in
             if truthy (ol_companyId oldLead)
             then (case company_findUnique_id (the (ol_companyId oldLead)) w1 of
                     (Inl e, w2) \<Rightarrow> (count_error ''email'' e n, w2)
                   | (Inr companyInNewSchema, w2) \<Rightarrow>
                       lead_write oldLead
                         (if companyInNewSchema \<noteq> None then ''converted_to_company''
                          else status)
                         companyInNewSchema n w2)
             else lead_write oldLead status None n w1)))"

text \<open>
  What the statements below say about \<open>findCompany\<close>: whether the legacy identifier
  resolves in the target store, and the call it makes to find out (none when the
  identifier is malformed).
\<close>

definition resolves_by_id :: "string \<Rightarrow> NewSchema \<Rightarrow> bool" where
  "resolves_by_id cid db =
     (case normalizeUuid (Some cid) of
        None \<Rightarrow> False
      | Some nid \<Rightarrow> find (\<lambda>c. c_id c = nid) (company db) \<noteq> None)"

definition id_calls :: "string \<Rightarrow> db_op list" where
  "id_calls cid =
     (case normalizeUuid (Some cid) of None \<Rightarrow> [] | Some nid \<Rightarrow> [Company_findFirst_id nid])"

text \<open>
  What the statements below say about the ledger: the sum of the failure categories, and
  the relation between the ledger before and after one processed record (\<open>total\<close> grows
  by one, and so does exactly one of \<open>successful\<close>, \<open>duplicates\<close> and \<open>failed\<close>,
  the last together with exactly one failure category).
\<close>

definition failures_total :: "Failures \<Rightarrow> nat" where
  "failures_total f =
     uuidFormat f + missingCompany f + missingJobRole f + emailStatusError f
     + duplicateEmail f + dataValidation f + dbError f + other f"

definition one_outcome :: "MigrationStats \<Rightarrow> MigrationStats \<Rightarrow> bool" where
  "one_outcome s s' =
     (total s' = total s + 1 \<and>
      ((successful s' = successful s + 1 \<and> duplicates s' = duplicates s \<and>
        failed s' = failed s \<and> failures s' = failures s)
       \<or> (successful s' = successful s \<and> duplicates s' = duplicates s + 1 \<and>
        failed s' = failed s \<and> failures s' = failures s)
       \<or> (successful s' = successful s \<and> duplicates s' = duplicates s \<and>
        failed s' = failed s + 1 \<and>
        failures_total (failures s') = failures_total (failures s) + 1 \<and>
        failures s' \<in> set (map (\<lambda>k. inc_failure k (failures s))
           [UuidFormat, MissingCompany, MissingJobRole, EmailStatusError,
            DuplicateEmail, DataValidation, DbErrorKind, Other]))))"

definition core :: "MigrationStats \<Rightarrow> nat \<times> nat \<times> nat \<times> nat \<times> Failures" where
  "core s = (total s, successful s, duplicates s, failed s, failures s)"

text \<open>What the statements below say about the reconciler: which calls are lookups by
  display value, and the status row a creation adds.\<close>

fun is_value_lookup :: "db_op \<Rightarrow> bool" where
  "is_value_lookup (CompanyStatus_findUnique_value v) = True"
| "is_value_lookup opn = False"

definition status_row_of :: "string \<Rightarrow> string \<Rightarrow> string \<Rightarrow> status_row" where
  "status_row_of d k v = \<lparr>st_field_display_name = d, st_key = k, st_value = v\<rparr>"

text \<open>
  What the statements below say about the company table after a company has been written:
  the first row holding the company's domain has the company's identifier, and every row
  with that identifier is the row \<open>transformCompany\<close> gives.
\<close>

definition company_settled :: "company_row \<Rightarrow> company_row list \<Rightarrow> bool" where
  "company_settled row T =
     ((case find (\<lambda>c. c_domain c = c_domain row) T of
         None \<Rightarrow> False
       | Some r \<Rightarrow> c_id r = c_id row) \<and>
      list_all (\<lambda>c. c_id c = c_id row \<longrightarrow> c = row) T)"

section \<open>Example stores\<close>

definition no_faults :: "nat \<Rightarrow> db_error option" where
  "no_faults = (\<lambda>n. None)"

definition zero_stats :: MigrationStats where
  "zero_stats =
     \<lparr>total = 0, successful = 0, duplicates = 0, failed = 0,
      companyMatches = \<lparr>byId = 0, byDomain = 0\<rparr>,
      failures = \<lparr>uuidFormat = 0, missingCompany = 0, missingJobRole = 0,
                  emailStatusError = 0, duplicateEmail = 0, dataValidation = 0,
                  dbError = 0, other = 0\<rparr>\<rparr>"

definition empty_newdb :: NewSchema where
  "empty_newdb =
     \<lparr>company = [], position = [], jobRole = [], contact = [], contactEmailStatus = [],
      companyStatus = [], leadStatus = [], lead = []\<rparr>"

definition row_myexample :: company_row where
  "row_myexample =
     \<lparr>c_id = ''11111111111111111111111111111111'', c_name = ''My Example'',
      c_website = ''http://myexample.com'', c_domain = ''myexample.com'',
      c_status = ''Potential Client'', c_is_deleted = False\<rparr>"

definition row_example :: company_row where
  "row_example =
     \<lparr>c_id = ''22222222222222222222222222222222'', c_name = ''Example'',
      c_website = ''http://example.com'', c_domain = ''Example.com'',
      c_status = ''Potential Client'', c_is_deleted = False\<rparr>"

definition old_example :: old_company where
  "old_example =
     \<lparr>oc_id = ''0627caad-6165-48ca-8c74-aac1d9783d92'', oc_domain = ''www.example.com'',
      oc_raw_body = None, oc_isDeleted = False\<rparr>"

text \<open>A target store holding only the company \<open>Example.com\<close>, and one that also holds
  \<open>myexample.com\<close> in an earlier row; the source company has the domain
  \<open>www.example.com\<close> and an identifier unknown to the target store.\<close>

definition world_one_match :: world where
  "world_one_match =
     \<lparr>newdb = empty_newdb\<lparr>company := [row_example]\<rparr>,
      olddb = \<lparr>companies = [old_example]\<rparr>,
      stats = zero_stats, calls = [], faults = no_faults\<rparr>"

definition world_two_matches :: world where
  "world_two_matches =
     \<lparr>newdb = empty_newdb\<lparr>company := [row_myexample, row_example]\<rparr>,
      olddb = \<lparr>companies = [old_example]\<rparr>,
      stats = zero_stats, calls = [], faults = no_faults\<rparr>"

definition example_position :: old_position where
  "example_position =
     \<lparr>op_id = ''9b2f7c1e-0d4a-4e5b-8f6a-1c2d3e4f5a6b'',
      op_companyId = Some ''0627caad-6165-48ca-8c74-aac1d9783d92'',
      op_position_title = ''Staff Nurse'', op_job_description = None\<rparr>"

definition example_contact :: old_contact where
  "example_contact =
     \<lparr>oct_id = ''3c4d5e6f-7a8b-4c9d-8e0f-a1b2c3d4e5f6'',
      oct_companyId = Some ''0627caad-6165-48ca-8c74-aac1d9783d92'',
      oct_first_name = Some ''Ada'', oct_last_name = Some ''Byron'', oct_full_name = None,
      oct_title = None, oct_email_status = Some ''Verified'',
      oct_email = Some ''ada@example.com''\<rparr>"




text \<open>A lead flagged both stuck and pending whose company is in the target store under
  the identifier the lead refers to, and a target store without that company.\<close>

definition row_superior_dashed :: company_row where
  "row_superior_dashed =
     \<lparr>c_id = ''0627caad-6165-48ca-8c74-aac1d9783d92'', c_name = ''Superior'',
      c_website = ''http://superiorphm.com'', c_domain = ''superiorphm.com'',
      c_status = ''Potential Client'', c_is_deleted = False\<rparr>"

definition stuck_lead :: old_lead where
  "stuck_lead =
     \<lparr>ol_id = ''5d6e7f80-9a0b-4c1d-8e2f-3a4b5c6d7e8f'', ol_email = ''jobs@superiorphm.com'',
      ol_companyId = Some ''0627caad-6165-48ca-8c74-aac1d9783d92'',
      ol_isPending = True, ol_isStuck = True\<rparr>"

definition world_lead :: world where
  "world_lead =
     \<lparr>newdb = empty_newdb\<lparr>company := [row_superior_dashed]\<rparr>,
      olddb = \<lparr>companies = []\<rparr>,
      stats = zero_stats, calls = [], faults = no_faults\<rparr>"

definition world_empty :: world where
  "world_empty =
     \<lparr>newdb = empty_newdb, olddb = \<lparr>companies = []\<rparr>,
      stats = zero_stats, calls = [], faults = no_faults\<rparr>"

text \<open>A target store whose company status table holds the display value
  \<open>Potential Client\<close> under another key than \<open>potential_client\<close>.\<close>

definition world_value_only :: world where
  "world_value_only =
     \<lparr>newdb = empty_newdb\<lparr>companyStatus :=
         [\<lparr>st_field_display_name = ''company_status'', st_key = ''potential'',
           st_value = ''Potential Client''\<rparr>]\<rparr>,
      olddb = \<lparr>companies = []\<rparr>,
      stats = zero_stats, calls = [], faults = no_faults\<rparr>"

text \<open>A run in which the first database call, the first lookup of the status seeding,
  throws a connection error; and a \<open>JSON.parse\<close> that rejects every payload.\<close>

definition world_seed_fails :: world where
  "world_seed_fails =
     \<lparr>newdb = empty_newdb, olddb = \<lparr>companies = [old_example]\<rparr>,
      stats = zero_stats, calls = [],
      faults = (\<lambda>n. if n = 0 then Some (DbError ''P1001'' []) else None)\<rparr>"

definition no_json :: "string \<Rightarrow> raw_body_json option" where
  "no_json = (\<lambda>s. None)"

text \<open>An empty target store and a source store with one company.\<close>

definition world_company_run :: world where
  "world_company_run =
     \<lparr>newdb = empty_newdb, olddb = \<lparr>companies = [old_example]\<rparr>,
      stats = zero_stats, calls = [], faults = no_faults\<rparr>"




text \<open>
  A source store with the companies \<open>y.com\<close> and \<open>x.com\<close>, in this order, and a target
  store that holds the second of them under a domain it no longer has, \<open>y.com\<close>.
\<close>

definition old_company_y :: old_company where
  "old_company_y =
     \<lparr>oc_id = ''bbbbbbbb-bbbb-4bbb-8bbb-bbbbbbbbbbbb'', oc_domain = ''y.com'',
      oc_raw_body = None, oc_isDeleted = False\<rparr>"

definition old_company_x :: old_company where
  "old_company_x =
     \<lparr>oc_id = ''aaaaaaaa-aaaa-4aaa-8aaa-aaaaaaaaaaaa'', oc_domain = ''x.com'',
      oc_raw_body = None, oc_isDeleted = False\<rparr>"

definition row_stale :: company_row where
  "row_stale =
     \<lparr>c_id = ''aaaaaaaa-aaaa-4aaa-8aaa-aaaaaaaaaaaa'', c_name = ''Unknown Company (y.com)'',
      c_website = ''http://y.com'', c_domain = ''y.com'',
      c_status = ''Potential Client'', c_is_deleted = False\<rparr>"

definition world_stale_domain :: world where
  "world_stale_domain =
     \<lparr>newdb = empty_newdb\<lparr>company := [row_stale]\<rparr>,
      olddb = \<lparr>companies = [old_company_y, old_company_x]\<rparr>,
      stats = zero_stats, calls = [], faults = no_faults\<rparr>"

section \<open>Results: Identifier Normalizer\<close>

lemma hex_string_not_empty: "hex_string n (strip_dashes s) \<Longrightarrow> 0 < n \<Longrightarrow> s \<noteq> []"
  by (auto simp: hex_string_def strip_dashes_def)

lemma normalizeUuid_32:
  assumes "hex_string 32 (strip_dashes s)"
  shows "normalizeUuid (Some s) = Some (strip_dashes s)"
proof -
  have "s \<noteq> []" using assms hex_string_not_empty by fastforce
  then show ?thesis using assms by (simp add: normalizeUuid_def truthy_def)
qed

lemma normalizeUuid_24:
  assumes "hex_string 24 (strip_dashes s)"
  shows "normalizeUuid (Some s) = Some (strip_dashes s @ ''00000000'')"
proof -
  have ne: "s \<noteq> []" using assms hex_string_not_empty by fastforce
  have len: "length (strip_dashes s) = 24" using assms by (simp add: hex_string_def)
  then have "\<not> hex_string 32 (strip_dashes s)" by (simp add: hex_string_def)
  moreover have "padEnd 32 CHR ''0'' (strip_dashes s) = strip_dashes s @ ''00000000''"
    using len by (simp add: padEnd_def eval_nat_numeral)
  ultimately show ?thesis using assms ne by (simp add: normalizeUuid_def truthy_def)
qed

lemma normalizeUuid_malformed:
  assumes "\<not> hex_string 32 (strip_dashes s)" and "\<not> hex_string 24 (strip_dashes s)"
  shows "normalizeUuid (Some s) = None"
  using assms by (simp add: normalizeUuid_def)

text \<open>
  C4 (as amended).  When the dash-stripped remainder of the input is 32 hexadecimal digits
  of either case, \<open>normalizeUuid\<close> returns that remainder unchanged: the case of the
  digits is kept, so the result is lower-case only when the input was.
\<close>

theorem C4_normalizeUuid_32_keeps_case:
  "hex_string 32 (strip_dashes s) \<Longrightarrow>
     normalizeUuid (Some s) = Some (strip_dashes s) \<and>
     (toLowerCase (strip_dashes s) = strip_dashes s \<longrightarrow>
        normalizeUuid (Some s) = Some (toLowerCase (strip_dashes s)))"
  by (simp add: normalizeUuid_32)

theorem C4_normalizeUuid_32_keeps_case_witness:
  "hex_string 32 (strip_dashes ''0627caad-6165-48ca-8c74-aac1d9783d92'') \<and>
   normalizeUuid (Some ''0627caad-6165-48ca-8c74-aac1d9783d92'')
     = Some ''0627caad616548ca8c74aac1d9783d92''"
proof -
  have h: "hex_string 32 (strip_dashes ''0627caad-6165-48ca-8c74-aac1d9783d92'')"
    by (simp add: hex_string_def strip_dashes_def is_hex_digit_def is_lower_hex_digit_def)
  from C4_normalizeUuid_32_keeps_case [OF h] show ?thesis
    using h by (simp add: strip_dashes_def)
qed

text \<open>
  C4 as stated fails: an identifier written with upper-case digits is accepted and comes
  back in upper case, which is not its lower-case form.
\<close>

theorem C4_uppercase_counterexample:
  "hex_string 32 (strip_dashes ''0627CAAD-6165-48CA-8C74-AAC1D9783D92'') \<and>
   normalizeUuid (Some ''0627CAAD-6165-48CA-8C74-AAC1D9783D92'')
     = Some ''0627CAAD616548CA8C74AAC1D9783D92'' \<and>
   normalizeUuid (Some ''0627CAAD-6165-48CA-8C74-AAC1D9783D92'')
     \<noteq> Some (toLowerCase (strip_dashes ''0627CAAD-6165-48CA-8C74-AAC1D9783D92''))"
  by (simp add: normalizeUuid_def truthy_def hex_string_def strip_dashes_def
      is_hex_digit_def is_lower_hex_digit_def toLowerCase_def lower_char_def
      latin1_upper_def latin1_lower_def)

text \<open>
  C5 (as amended).  \<open>normalizeUuid\<close> has one failure value: a null input returns null,
  and so does every string whose dash-stripped form is neither 32 nor 24 hexadecimal
  digits.  The result alone does not tell a missing identifier from a malformed one.
\<close>

theorem C5_normalizeUuid_null_for_both:
  "normalizeUuid None = None \<and>
   (\<not> hex_string 32 (strip_dashes s) \<and> \<not> hex_string 24 (strip_dashes s)
      \<longrightarrow> normalizeUuid (Some s) = normalizeUuid None)"
  by (simp add: normalizeUuid_def truthy_def)

theorem C5_normalizeUuid_null_for_both_witness:
  "\<not> hex_string 32 (strip_dashes ''not-a-uuid'') \<and>
   \<not> hex_string 24 (strip_dashes ''not-a-uuid'') \<and>
   normalizeUuid (Some ''not-a-uuid'') = normalizeUuid None"
proof -
  have h: "\<not> hex_string 32 (strip_dashes ''not-a-uuid'') \<and>
           \<not> hex_string 24 (strip_dashes ''not-a-uuid'')"
    by (simp add: hex_string_def strip_dashes_def)
  from C5_normalizeUuid_null_for_both [of "''not-a-uuid''"] h show ?thesis by blast
qed

text \<open>
  C5 as stated fails: the malformed identifier \<open>not-a-uuid\<close> yields the very value that
  a null input yields, not a distinguishable error.
\<close>

theorem C5_malformed_counterexample:
  "\<not> hex_string 32 (strip_dashes ''not-a-uuid'') \<and>
   \<not> hex_string 24 (strip_dashes ''not-a-uuid'') \<and>
   normalizeUuid (Some ''not-a-uuid'') = None \<and>
   normalizeUuid None = None"
  by (simp add: normalizeUuid_def truthy_def hex_string_def strip_dashes_def)

text \<open>
  C6.  When the dash-stripped remainder of the input is 24 lower-case hexadecimal digits,
  \<open>normalizeUuid\<close> returns the remainder followed by eight \<open>0\<close> characters: a string
  of length 32 whose first 24 characters are the remainder and whose last 8 are
  \<open>00000000\<close>.
\<close>

theorem C6_normalizeUuid_24_padded:
  assumes "length (strip_dashes s) = 24"
    and "list_all is_lower_hex_digit (strip_dashes s)"
  shows "normalizeUuid (Some s) = Some (strip_dashes s @ ''00000000'') \<and>
         length (strip_dashes s @ ''00000000'') = 32 \<and>
         take 24 (strip_dashes s @ ''00000000'') = strip_dashes s \<and>
         drop 24 (strip_dashes s @ ''00000000'') = ''00000000''"
proof -
  have "list_all is_hex_digit (strip_dashes s)"
    using assms(2) by (simp add: list_all_iff is_hex_digit_def)
  with assms(1) have "hex_string 24 (strip_dashes s)" by (simp add: hex_string_def)
  then have "normalizeUuid (Some s) = Some (strip_dashes s @ ''00000000'')"
    by (rule normalizeUuid_24)
  with assms(1) show ?thesis by simp
qed

theorem C6_normalizeUuid_24_padded_witness:
  "length (strip_dashes ''507f1f77bcf86cd799439011'') = 24 \<and>
   list_all is_lower_hex_digit (strip_dashes ''507f1f77bcf86cd799439011'') \<and>
   normalizeUuid (Some ''507f1f77bcf86cd799439011'')
     = Some ''507f1f77bcf86cd79943901100000000''"
proof -
  have h1: "length (strip_dashes ''507f1f77bcf86cd799439011'') = 24"
    by (simp add: strip_dashes_def)
  have h2: "list_all is_lower_hex_digit (strip_dashes ''507f1f77bcf86cd799439011'')"
    by (simp add: strip_dashes_def is_lower_hex_digit_def)
  have h3: "strip_dashes ''507f1f77bcf86cd799439011'' = ''507f1f77bcf86cd799439011''"
    by (simp add: strip_dashes_def)
  from C6_normalizeUuid_24_padded [OF h1 h2]
  have "normalizeUuid (Some ''507f1f77bcf86cd799439011'')
          = Some (strip_dashes ''507f1f77bcf86cd799439011'' @ ''00000000'')"
    by (rule conjunct1)
  then have "normalizeUuid (Some ''507f1f77bcf86cd799439011'')
          = Some ''507f1f77bcf86cd79943901100000000''"
    by (simp only: h3 append.simps)
  with h1 h2 show ?thesis by blast
qed

section \<open>Results: Reference Resolver\<close>

lemma new_call_ok:
  "faults w = (\<lambda>n. None) \<Longrightarrow>
   new_call opn f w =
     (Inr (fst (f (newdb w))), w\<lparr>calls := calls w @ [opn], newdb := snd (f (newdb w))\<rparr>)"
  by (simp add: new_call_def Let_def split: prod.splits)

lemma old_call_ok:
  "faults w = (\<lambda>n. None) \<Longrightarrow>
   old_call opn f w = (Inr (f (olddb w)), w\<lparr>calls := calls w @ [opn]\<rparr>)"
  by (simp add: old_call_def Let_def)

lemma find_Some_mem: "find P xs = Some x \<Longrightarrow> x \<in> set xs \<and> P x"
  by (auto simp: find_Some_iff)

lemma find_exists: "x \<in> set xs \<Longrightarrow> P x \<Longrightarrow> \<exists>y. find P xs = Some y"
  by (cases "find P xs") (auto simp: find_None_iff)

lemma equals_or_match: "equals_insensitive (c_domain c) d \<Longrightarrow> or_match d v d c"
  by (simp add: or_match_def)

lemma findCompany_byDomain_ok:
  assumes nofault: "faults w = (\<lambda>n. None)"
    and src: "find (\<lambda>c. oc_id c = cid) (companies (olddb w)) = Some oc"
    and nd: "normalizeDomain (oc_domain oc) = nd" "nd \<noteq> []"
  shows "findCompany_byDomain cid w =
     (case find (\<lambda>c. c_domain c = nd) (company (newdb w)) of
        Some e \<Rightarrow> (Some (select_company e),
                    inc_byDomain (w\<lparr>calls := calls w @
                      [OldCompanies_findUnique cid, Company_findFirst_domain nd]\<rparr>))
      | None \<Rightarrow>
         (case find (or_match nd (snd (domainVariants nd)) nd) (company (newdb w)) of
            Some e \<Rightarrow> (Some (select_company e),
                    inc_byDomain (w\<lparr>calls := calls w @
                      [OldCompanies_findUnique cid, Company_findFirst_domain nd,
                       Company_findFirst_OR nd (snd (domainVariants nd)) nd]\<rparr>))
          | None \<Rightarrow> (None, w\<lparr>calls := calls w @
                      [OldCompanies_findUnique cid, Company_findFirst_domain nd,
                       Company_findFirst_OR nd (snd (domainVariants nd)) nd]\<rparr>)))"
proof -
  have dne: "oc_domain oc \<noteq> []" using nd by (auto simp: normalizeDomain_def)
  show ?thesis
    using nofault src nd dne
    by (simp add: findCompany_byDomain_def oldCompanies_findUnique_def
        company_findFirst_domain_def company_findFirst_OR_def new_call_ok old_call_ok
        domainVariants_def inc_byDomain_def split: option.splits)
qed

lemma findCompany_unresolved:
  assumes nofault: "faults w = (\<lambda>n. None)" and cid: "cid \<noteq> []"
    and unresolved: "\<not> resolves_by_id cid (newdb w)"
  shows "findCompany (Some cid) w
           = findCompany_byDomain cid (w\<lparr>calls := calls w @ id_calls cid\<rparr>)"
proof (cases "normalizeUuid (Some cid)")
  case None
  then show ?thesis using cid by (simp add: findCompany_def truthy_def id_calls_def)
next
  case (Some nid)
  with unresolved have "find (\<lambda>c. c_id c = nid) (company (newdb w)) = None"
    by (simp add: resolves_by_id_def)
  with Some nofault cid show ?thesis
    by (simp add: findCompany_def truthy_def id_calls_def company_findFirst_id_def new_call_ok)
qed

text \<open>
  C3 (as amended).  Let the domains of the source company and of the target rows be ASCII,
  let no database call throw, let the legacy company identifier not resolve in the target
  store, and let the source company's normalized domain \<open>nd\<close> be non-empty and equal,
  ignoring case, to the domain of some target row.  Then
  \<open>findCompany\<close> returns a target row and counts it under \<open>byDomain\<close>, leaving
  \<open>byId\<close> as it was.  It first queries for a domain equal to \<open>nd\<close> and returns the
  first such row; failing that it issues one query whose conditions (equal ignoring case
  to \<open>nd\<close>, equal ignoring case to the \<open>www.\<close>-toggled variant, containing \<open>nd\<close>
  ignoring case) are alternatives without precedence, and returns the first row in table
  order satisfying any of them.  The row returned is the matching row itself when no other
  row satisfies any of the three conditions.
\<close>

theorem C3_findCompany_domain_fallback:
  assumes nofault: "faults w = (\<lambda>n. None)" and cid: "cid \<noteq> []"
    and unresolved: "\<not> resolves_by_id cid (newdb w)"
    and src: "find (\<lambda>c. oc_id c = cid) (companies (olddb w)) = Some oc"
    and nd: "normalizeDomain (oc_domain oc) = nd" "nd \<noteq> []"
    and row: "row \<in> set (company (newdb w))" "equals_insensitive (c_domain row) nd"
    and ascii: "is_ascii (oc_domain oc)"
      "list_all (\<lambda>c. is_ascii (c_domain c)) (company (newdb w))"
  shows "\<exists>c w'. findCompany (Some cid) w = (Some (select_company c), w') \<and>
           (case find (\<lambda>c. c_domain c = nd) (company (newdb w)) of
              Some e \<Rightarrow> c = e \<and> calls w' = calls w @ id_calls cid @
                  [OldCompanies_findUnique cid, Company_findFirst_domain nd]
            | None \<Rightarrow>
                find (or_match nd (snd (domainVariants nd)) nd) (company (newdb w)) = Some c \<and>
                calls w' = calls w @ id_calls cid @
                  [OldCompanies_findUnique cid, Company_findFirst_domain nd,
                   Company_findFirst_OR nd (snd (domainVariants nd)) nd]) \<and>
           ((\<forall>c' \<in> set (company (newdb w)).
                or_match nd (snd (domainVariants nd)) nd c' \<longrightarrow> c' = row) \<longrightarrow> c = row) \<and>
           byDomain (companyMatches (stats w')) = byDomain (companyMatches (stats w)) + 1 \<and>
           byId (companyMatches (stats w')) = byId (companyMatches (stats w)) \<and>
           newdb w' = newdb w"
proof -
  let ?w1 = "w\<lparr>calls := calls w @ id_calls cid\<rparr>"
  let ?cs = "company (newdb w)"
  let ?P = "or_match nd (snd (domainVariants nd)) nd"
  have step: "findCompany (Some cid) w = findCompany_byDomain cid ?w1"
    using nofault cid unresolved by (rule findCompany_unresolved)
  have byd: "findCompany_byDomain cid ?w1 =
     (case find (\<lambda>c. c_domain c = nd) (company (newdb ?w1)) of
        Some e \<Rightarrow> (Some (select_company e),
                    inc_byDomain (?w1\<lparr>calls := calls ?w1 @
                      [OldCompanies_findUnique cid, Company_findFirst_domain nd]\<rparr>))
      | None \<Rightarrow>
         (case find ?P (company (newdb ?w1)) of
            Some e \<Rightarrow> (Some (select_company e),
                    inc_byDomain (?w1\<lparr>calls := calls ?w1 @
                      [OldCompanies_findUnique cid, Company_findFirst_domain nd,
                       Company_findFirst_OR nd (snd (domainVariants nd)) nd]\<rparr>))
          | None \<Rightarrow> (None, ?w1\<lparr>calls := calls ?w1 @
                      [OldCompanies_findUnique cid, Company_findFirst_domain nd,
                       Company_findFirst_OR nd (snd (domainVariants nd)) nd]\<rparr>)))"
    by (rule findCompany_byDomain_ok [where oc = oc]) (use nofault src nd in simp_all)
  have rowP: "?P row" using row(2) by (rule equals_or_match)
  from find_exists [of row ?cs ?P, OF row(1) rowP]
  obtain c where c: "find ?P ?cs = Some c" by blast
  show ?thesis
  proof (cases "find (\<lambda>c. c_domain c = nd) ?cs")
    case None
    have uniq: "(\<forall>c' \<in> set ?cs. ?P c' \<longrightarrow> c' = row) \<longrightarrow> c = row"
      using find_Some_mem [OF c] by blast
    show ?thesis
      apply (rule exI [of _ c])
      using None c uniq by (simp add: step byd inc_byDomain_def)
  next
    case (Some e)
    from find_Some_mem [OF Some] have e: "e \<in> set ?cs" "c_domain e = nd" by simp_all
    then have "?P e" by (simp add: equals_or_match equals_insensitive_def)
    with e have uniq: "(\<forall>c' \<in> set ?cs. ?P c' \<longrightarrow> c' = row) \<longrightarrow> e = row" by blast
    show ?thesis
      apply (rule exI [of _ e])
      using Some uniq by (simp add: step byd inc_byDomain_def)
  qed
qed

theorem C3_findCompany_domain_fallback_witness:
  "faults world_one_match = (\<lambda>n. None) \<and>
   \<not> resolves_by_id ''0627caad-6165-48ca-8c74-aac1d9783d92'' (newdb world_one_match) \<and>
   find (\<lambda>c. oc_id c = ''0627caad-6165-48ca-8c74-aac1d9783d92'')
     (companies (olddb world_one_match)) = Some old_example \<and>
   normalizeDomain (oc_domain old_example) = ''example.com'' \<and>
   row_example \<in> set (company (newdb world_one_match)) \<and>
   equals_insensitive (c_domain row_example) ''example.com'' \<and>
   is_ascii (oc_domain old_example) \<and>
   list_all (\<lambda>c. is_ascii (c_domain c)) (company (newdb world_one_match)) \<and>
   fst (findCompany (Some ''0627caad-6165-48ca-8c74-aac1d9783d92'') world_one_match)
     = Some (select_company row_example)"
proof -
  let ?cid = "''0627caad-6165-48ca-8c74-aac1d9783d92''"
  have h1: "faults world_one_match = (\<lambda>n. None)"
    by (simp add: world_one_match_def no_faults_def)
  have h2: "?cid \<noteq> []" by simp
  have h3: "\<not> resolves_by_id ?cid (newdb world_one_match)" by code_simp
  have h4: "find (\<lambda>c. oc_id c = ?cid) (companies (olddb world_one_match)) = Some old_example"
    by (simp add: world_one_match_def old_example_def)
  have h5: "normalizeDomain (oc_domain old_example) = ''example.com''" by code_simp
  have h6: "''example.com'' \<noteq> []" by simp
  have h7: "row_example \<in> set (company (newdb world_one_match))"
    by (simp add: world_one_match_def empty_newdb_def)
  have h8: "equals_insensitive (c_domain row_example) ''example.com''" by code_simp
  have h9: "is_ascii (oc_domain old_example)" by code_simp
  have h10: "list_all (\<lambda>c. is_ascii (c_domain c)) (company (newdb world_one_match))"
    by code_simp
  have uniq: "\<forall>c' \<in> set (company (newdb world_one_match)).
      or_match ''example.com'' (snd (domainVariants ''example.com'')) ''example.com'' c'
        \<longrightarrow> c' = row_example"
    by (simp add: world_one_match_def empty_newdb_def)
  from C3_findCompany_domain_fallback [OF h1 h2 h3 h4 h5 h6 h7 h8 h9 h10]
  obtain c w' where r: "findCompany (Some ?cid) world_one_match = (Some (select_company c), w')"
    and u: "(\<forall>c' \<in> set (company (newdb world_one_match)).
      or_match ''example.com'' (snd (domainVariants ''example.com'')) ''example.com'' c'
        \<longrightarrow> c' = row_example) \<longrightarrow> c = row_example"
    by blast
  from u uniq have "c = row_example" by blast
  with r have "fst (findCompany (Some ?cid) world_one_match) = Some (select_company row_example)"
    by simp
  with h1 h3 h4 h5 h7 h8 h9 h10 show ?thesis by blast
qed

text \<open>
  C3 as stated fails where it promises the row that matches ignoring case and a
  precedence of the case-insensitive match over containment: with \<open>myexample.com\<close>
  stored before \<open>Example.com\<close>, the source domain \<open>www.example.com\<close> resolves to
  \<open>myexample.com\<close>, which only contains the normalized domain.
\<close>

theorem C3_two_matches_counterexample:
  "\<not> resolves_by_id ''0627caad-6165-48ca-8c74-aac1d9783d92'' (newdb world_two_matches) \<and>
   row_example \<in> set (company (newdb world_two_matches)) \<and>
   equals_insensitive (c_domain row_example) (normalizeDomain (oc_domain old_example)) \<and>
   \<not> equals_insensitive (c_domain row_myexample) (normalizeDomain (oc_domain old_example)) \<and>
   fst (findCompany (Some ''0627caad-6165-48ca-8c74-aac1d9783d92'') world_two_matches)
     = Some (select_company row_myexample) \<and>
   select_company row_myexample \<noteq> select_company row_example \<and>
   byDomain (companyMatches (stats (snd
     (findCompany (Some ''0627caad-6165-48ca-8c74-aac1d9783d92'') world_two_matches)))) = 1"
proof (intro conjI)
  show "\<not> resolves_by_id ''0627caad-6165-48ca-8c74-aac1d9783d92'' (newdb world_two_matches)"
    by code_simp
  show "row_example \<in> set (company (newdb world_two_matches))"
    by (simp add: world_two_matches_def empty_newdb_def)
  show "equals_insensitive (c_domain row_example) (normalizeDomain (oc_domain old_example))"
    by code_simp
  show "\<not> equals_insensitive (c_domain row_myexample) (normalizeDomain (oc_domain old_example))"
    by code_simp
  show "fst (findCompany (Some ''0627caad-6165-48ca-8c74-aac1d9783d92'') world_two_matches)
     = Some (select_company row_myexample)"
    by code_simp
  show "select_company row_myexample \<noteq> select_company row_example"
    by code_simp
  show "byDomain (companyMatches (stats (snd
     (findCompany (Some ''0627caad-6165-48ca-8c74-aac1d9783d92'') world_two_matches)))) = 1"
    by code_simp
qed

section \<open>Results: the statistics ledger\<close>

lemma new_call_stats: "new_call opn f w = (x, w') \<Longrightarrow> stats w' = stats w"
  by (auto simp: new_call_def Let_def split: option.splits prod.splits)

lemma old_call_stats: "old_call opn f w = (x, w') \<Longrightarrow> stats w' = stats w"
  by (auto simp: old_call_def Let_def split: option.splits)

lemma core_inc_byDomain: "core (stats (inc_byDomain w)) = core (stats w)"
  by (simp add: core_def inc_byDomain_def)

lemma core_inc_byId: "core (stats (inc_byId w)) = core (stats w)"
  by (simp add: core_def inc_byId_def)

lemma findCompany_byDomain_core:
  "findCompany_byDomain c w = (x, w') \<Longrightarrow> core (stats w') = core (stats w)"
  unfolding findCompany_byDomain_def oldCompanies_findUnique_def company_findFirst_domain_def
    company_findFirst_OR_def Let_def
  by (auto split: prod.splits sum.splits option.splits if_splits
      dest!: new_call_stats old_call_stats simp: core_inc_byDomain)

lemma findCompany_core:
  "findCompany c w = (x, w') \<Longrightarrow> core (stats w') = core (stats w)"
  unfolding findCompany_def company_findFirst_id_def
  by (auto split: prod.splits sum.splits option.splits if_splits
      dest!: new_call_stats findCompany_byDomain_core simp: core_inc_byId)

lemma jobRole_create_stats: "jobRole_create a b c w = (x, w') \<Longrightarrow> stats w' = stats w"
  unfolding jobRole_create_def by (rule new_call_stats)

lemma createJobRole_stats: "createJobRole t n d w = (x, w') \<Longrightarrow> stats w' = stats w"
  unfolding createJobRole_def Let_def
  by (auto split: prod.splits sum.splits if_splits dest!: jobRole_create_stats)

lemma findOrCreateJobRole_stats: "findOrCreateJobRole t d w = (x, w') \<Longrightarrow> stats w' = stats w"
  unfolding findOrCreateJobRole_def jobRole_findFirst_def Let_def
  by (auto split: prod.splits sum.splits option.splits
      dest!: createJobRole_stats new_call_stats)

lemma fallbackEmailStatus_stats: "fallbackEmailStatus w = (x, w') \<Longrightarrow> stats w' = stats w"
  unfolding fallbackEmailStatus_def contactEmailStatus_findFirst_def contactEmailStatus_create_def
  by (auto split: prod.splits sum.splits option.splits dest!: new_call_stats)

lemma findOrCreateEmailStatus_stats:
  "findOrCreateEmailStatus st w = (x, w') \<Longrightarrow> stats w' = stats w"
  unfolding findOrCreateEmailStatus_def contactEmailStatus_findFirst_def
    contactEmailStatus_create_def Let_def
  by (auto split: prod.splits sum.splits option.splits
      dest!: new_call_stats fallbackEmailStatus_stats)

lemma uniqueEmail_stats: "uniqueEmail e i r w = (x, w') \<Longrightarrow> stats w' = stats w"
  unfolding uniqueEmail_def contact_findFirst_email_def
  by (auto split: prod.splits sum.splits option.splits if_splits dest!: new_call_stats)

lemma one_outcome_success:
  "core (stats w1) = core (stats (inc_total w)) \<Longrightarrow> one_outcome (stats w) (stats (inc_successful w1))"
  by (simp add: core_def one_outcome_def inc_total_def inc_successful_def)

lemma one_outcome_duplicate:
  "core (stats w1) = core (stats (inc_total w)) \<Longrightarrow> one_outcome (stats w) (stats (inc_duplicates w1))"
  by (simp add: core_def one_outcome_def inc_total_def inc_duplicates_def)

lemma one_outcome_failed:
  "core (stats w1) = core (stats (inc_total w)) \<Longrightarrow> one_outcome (stats w) (stats (inc_failed k w1))"
  by (cases k)
    (simp_all add: core_def one_outcome_def inc_total_def inc_failed_def failures_total_def)

lemma position_findUnique_stats: "position_findUnique i w = (x, w') \<Longrightarrow> stats w' = stats w"
  unfolding position_findUnique_def by (rule new_call_stats)

lemma position_create_stats: "position_create r w = (x, w') \<Longrightarrow> stats w' = stats w"
  unfolding position_create_def by (rule new_call_stats)

lemma contact_findUnique_stats: "contact_findUnique i w = (x, w') \<Longrightarrow> stats w' = stats w"
  unfolding contact_findUnique_def by (rule new_call_stats)

lemma contact_create_stats: "contact_create r w = (x, w') \<Longrightarrow> stats w' = stats w"
  unfolding contact_create_def by (rule new_call_stats)

lemma migratePosition_outcome:
  "migratePosition r w = (res, w') \<Longrightarrow> one_outcome (stats w) (stats w')"
  unfolding migratePosition_def Let_def
  by (auto split: prod.splits sum.splits option.splits if_splits
      dest!: position_findUnique_stats position_create_stats findCompany_core
             findOrCreateJobRole_stats
      intro!: one_outcome_success one_outcome_duplicate one_outcome_failed)

lemma contact_catch_outcome:
  "contact_catch r e w1 = (res, w') \<Longrightarrow> core (stats w1) = core (stats (inc_total w))
     \<Longrightarrow> one_outcome (stats w) (stats w')"
  unfolding contact_catch_def
  by (auto split: if_splits intro!: one_outcome_failed)

lemma migrateContact_outcome:
  "migrateContact rs r w = (res, w') \<Longrightarrow> one_outcome (stats w) (stats w')"
  unfolding migrateContact_def Let_def
  by (auto split: prod.splits sum.splits option.splits if_splits
      dest!: contact_findUnique_stats contact_create_stats findCompany_core
             findOrCreateEmailStatus_stats uniqueEmail_stats
      intro!: one_outcome_success one_outcome_duplicate one_outcome_failed
      elim!: contact_catch_outcome)

text \<open>
  C9.  Whatever the stores hold and whichever database calls throw, one call of
  \<open>migratePosition\<close> or of \<open>migrateContact\<close> adds one to \<open>total\<close> and one to
  exactly one of \<open>successful\<close>, \<open>duplicates\<close> and \<open>failed\<close>, and with \<open>failed\<close>
  one to exactly one failure category; so \<open>total = successful + duplicates + failed\<close>
  still holds after the call if it held before.
\<close>

theorem C9_one_counter_per_record:
  "one_outcome (stats w) (stats (snd (migratePosition p w))) \<and>
   one_outcome (stats w) (stats (snd (migrateContact randomStr c w))) \<and>
   (total (stats w) = successful (stats w) + duplicates (stats w) + failed (stats w) \<longrightarrow>
      total (stats (snd (migratePosition p w)))
        = successful (stats (snd (migratePosition p w)))
          + duplicates (stats (snd (migratePosition p w)))
          + failed (stats (snd (migratePosition p w))) \<and>
      total (stats (snd (migrateContact randomStr c w)))
        = successful (stats (snd (migrateContact randomStr c w)))
          + duplicates (stats (snd (migrateContact randomStr c w)))
          + failed (stats (snd (migrateContact randomStr c w))))"
proof -
  have p: "one_outcome (stats w) (stats (snd (migratePosition p w)))"
    by (rule migratePosition_outcome [of p w "fst (migratePosition p w)"]) simp
  have c: "one_outcome (stats w) (stats (snd (migrateContact randomStr c w)))"
    by (rule migrateContact_outcome [of randomStr c w "fst (migrateContact randomStr c w)"]) simp
  have inv: "one_outcome s s' \<Longrightarrow> total s = successful s + duplicates s + failed s
      \<Longrightarrow> total s' = successful s' + duplicates s' + failed s'" for s s'
    unfolding one_outcome_def by linarith
  from p c inv show ?thesis by blast
qed

theorem C9_one_counter_per_record_witness:
  "total (stats world_one_match)
     = successful (stats world_one_match) + duplicates (stats world_one_match)
       + failed (stats world_one_match) \<and>
   fst (migratePosition example_position world_one_match)
     = Success ''9b2f7c1e0d4a4e5b8f6a1c2d3e4f5a6b'' \<and>
   total (stats (snd (migratePosition example_position world_one_match)))
     = successful (stats (snd (migratePosition example_position world_one_match)))
       + duplicates (stats (snd (migratePosition example_position world_one_match)))
       + failed (stats (snd (migratePosition example_position world_one_match))) \<and>
   total (stats (snd (migrateContact ''k3x9q2'' example_contact world_one_match)))
     = successful (stats (snd (migrateContact ''k3x9q2'' example_contact world_one_match)))
       + duplicates (stats (snd (migrateContact ''k3x9q2'' example_contact world_one_match)))
       + failed (stats (snd (migrateContact ''k3x9q2'' example_contact world_one_match)))"
proof -
  have h: "total (stats world_one_match)
     = successful (stats world_one_match) + duplicates (stats world_one_match)
       + failed (stats world_one_match)"
    by (simp add: world_one_match_def zero_stats_def)
  have e: "fst (migratePosition example_position world_one_match)
     = Success ''9b2f7c1e0d4a4e5b8f6a1c2d3e4f5a6b''"
    by code_simp
  from C9_one_counter_per_record [of world_one_match example_position "''k3x9q2''" example_contact]
    h e show ?thesis by blast
qed

section \<open>Results: what the calls leave unchanged\<close>

lemma new_call_newdb:
  "new_call opn f w = (x, w') \<Longrightarrow> newdb w' = newdb w \<or> newdb w' = snd (f (newdb w))"
  by (auto simp: new_call_def Let_def split: option.splits prod.splits)

lemma new_call_read: "new_call opn (\<lambda>db. (g db, db)) w = (x, w') \<Longrightarrow> newdb w' = newdb w"
  by (auto simp: new_call_def Let_def split: option.splits)

lemma old_call_newdb: "old_call opn f w = (x, w') \<Longrightarrow> newdb w' = newdb w"
  by (auto simp: old_call_def Let_def split: option.splits)

lemma findCompany_byDomain_newdb: "findCompany_byDomain c w = (x, w') \<Longrightarrow> newdb w' = newdb w"
  unfolding findCompany_byDomain_def oldCompanies_findUnique_def company_findFirst_domain_def
    company_findFirst_OR_def Let_def
  by (auto split: prod.splits sum.splits option.splits if_splits
      dest!: new_call_read old_call_newdb simp: inc_byDomain_def)

lemma findCompany_newdb: "findCompany c w = (x, w') \<Longrightarrow> newdb w' = newdb w"
  unfolding findCompany_def company_findFirst_id_def
  by (auto split: prod.splits sum.splits option.splits if_splits
      dest!: new_call_read findCompany_byDomain_newdb simp: inc_byId_def)

lemma jobRole_create_tables:
  "jobRole_create a b c w = (x, w') \<Longrightarrow>
     position (newdb w') = position (newdb w) \<and> contact (newdb w') = contact (newdb w)"
  unfolding jobRole_create_def by (drule new_call_newdb) (auto simp: Let_def)

lemma createJobRole_tables:
  "createJobRole t n d w = (x, w') \<Longrightarrow> position (newdb w') = position (newdb w)"
  unfolding createJobRole_def Let_def
  by (auto split: prod.splits sum.splits if_splits dest!: jobRole_create_tables)

lemma findOrCreateJobRole_tables:
  "findOrCreateJobRole t d w = (x, w') \<Longrightarrow> position (newdb w') = position (newdb w)"
  unfolding findOrCreateJobRole_def jobRole_findFirst_def Let_def
  by (auto split: prod.splits sum.splits option.splits
      dest!: createJobRole_tables new_call_read)

lemma position_create_grows:
  "position_create row w = (x, w') \<Longrightarrow>
     position (newdb w') = position (newdb w) \<or> position (newdb w') = position (newdb w) @ [row]"
  unfolding position_create_def by (drule new_call_newdb) auto

lemma migratePosition_keeps_rows:
  "migratePosition p w = (res, w') \<Longrightarrow>
     set (position (newdb w)) \<subseteq> set (position (newdb w'))"
  unfolding migratePosition_def Let_def position_findUnique_def
  by (auto split: prod.splits sum.splits option.splits if_splits
      dest!: new_call_read findCompany_newdb findOrCreateJobRole_tables position_create_grows
      simp: inc_total_def inc_failed_def inc_duplicates_def inc_successful_def)

lemma contactEmailStatus_create_tables:
  "contactEmailStatus_create a b w = (x, w') \<Longrightarrow> contact (newdb w') = contact (newdb w)"
  unfolding contactEmailStatus_create_def by (drule new_call_newdb) auto

lemma fallbackEmailStatus_tables:
  "fallbackEmailStatus w = (x, w') \<Longrightarrow> contact (newdb w') = contact (newdb w)"
  unfolding fallbackEmailStatus_def contactEmailStatus_findFirst_def
  by (auto split: prod.splits sum.splits option.splits
      dest!: new_call_read contactEmailStatus_create_tables)

lemma findOrCreateEmailStatus_tables:
  "findOrCreateEmailStatus s w = (x, w') \<Longrightarrow> contact (newdb w') = contact (newdb w)"
  unfolding findOrCreateEmailStatus_def contactEmailStatus_findFirst_def Let_def
  by (auto split: prod.splits sum.splits option.splits
      dest!: new_call_read contactEmailStatus_create_tables fallbackEmailStatus_tables)

lemma uniqueEmail_newdb: "uniqueEmail e i r w = (x, w') \<Longrightarrow> newdb w' = newdb w"
  unfolding uniqueEmail_def contact_findFirst_email_def
  by (auto split: prod.splits sum.splits option.splits if_splits dest!: new_call_read)

lemma contact_create_grows:
  "contact_create row w = (x, w') \<Longrightarrow>
     contact (newdb w') = contact (newdb w) \<or> contact (newdb w') = contact (newdb w) @ [row]"
  unfolding contact_create_def by (drule new_call_newdb) auto

lemma contact_catch_newdb: "contact_catch c e w = (x, w') \<Longrightarrow> newdb w' = newdb w"
  by (auto simp: contact_catch_def inc_failed_def split: if_splits)

lemma migrateContact_keeps_rows:
  "migrateContact rs c w = (res, w') \<Longrightarrow>
     set (contact (newdb w)) \<subseteq> set (contact (newdb w'))"
  unfolding migrateContact_def Let_def contact_findUnique_def
  by (auto split: prod.splits sum.splits option.splits if_splits
      dest!: new_call_read findCompany_newdb findOrCreateEmailStatus_tables uniqueEmail_newdb
             contact_create_grows contact_catch_newdb
      simp: inc_total_def inc_failed_def inc_duplicates_def inc_successful_def)







section \<open>Results: e-mail conflicts in the contact migrator\<close>












section \<open>Results: lead status\<close>

lemma lead_write_ok:
  "faults w = (\<lambda>n. None) \<Longrightarrow>
   lead_write l st c n w =
     (n\<lparr>successCount := successCount n + 1\<rparr>,
      w\<lparr>calls := calls w @ [Lead_create (ol_id l)],
        newdb := (newdb w)\<lparr>lead := lead (newdb w) @ [transformLead l st c]\<rparr>\<rparr>)"
  by (simp add: lead_write_def lead_create_def new_call_ok transformLead_def)

text \<open>
  C1 (as amended).  Let no database call throw and let no lead with the same e-mail
  address be in the target store.  Then the loop body of \<open>migrateOldLeads\<close> creates
  the lead with a status given by one rule, in this precedence: a company reference that
  resolves in the target store gives \<open>converted_to_company\<close>, whatever the flags;
  otherwise the stuck flag gives \<open>failed\<close>; otherwise the pending flag gives
  \<open>in_progress\<close>; otherwise \<open>new_lead\<close>.  A lead with both flags set never receives
  \<open>in_progress\<close>.  \<open>determineLeadStatus\<close> by itself ranks the stuck flag over the
  pending flag over the default, and a company reference does not change its result.
\<close>

theorem C1_lead_status_precedence:
  assumes nofault: "faults w = (\<lambda>n. None)"
    and fresh: "find (\<lambda>r. l_email r = ol_email l) (lead (newdb w)) = None"
  shows "(\<exists>w' row. migrateOldLead_step l (n, w) = (n\<lparr>successCount := successCount n + 1\<rparr>, w') \<and>
            lead (newdb w') = lead (newdb w) @ [row] \<and> l_id row = ol_id l \<and>
            l_status row =
              (if truthy (ol_companyId l) \<and>
                  find (\<lambda>c. c_id c = the (ol_companyId l)) (company (newdb w)) \<noteq> None
               then ''converted_to_company''
               else if ol_isStuck l then ''failed''
               else if ol_isPending l then ''in_progress''
               else ''new_lead'') \<and>
            (ol_isStuck l \<and> ol_isPending l \<longrightarrow> l_status row \<noteq> ''in_progress'')) \<and>
         determineLeadStatus l =
           (if ol_isStuck l then ''failed''
            else if ol_isPending l then ''in_progress''
            else ''new_lead'')"
proof -
  have d: "determineLeadStatus l =
           (if ol_isStuck l then ''failed''
            else if ol_isPending l then ''in_progress''
            else ''new_lead'')"
    by (simp add: determineLeadStatus_def DEFAULT_LEAD_STATUS_def)
  let ?w1 = "w\<lparr>calls := calls w @ [Lead_findUnique_email (ol_email l)]\<rparr>"
  have s1: "lead_findUnique_email (ol_email l) w = (Inr None, ?w1)"
    using nofault fresh by (simp add: lead_findUnique_email_def new_call_ok)
  have f1: "faults ?w1 = (\<lambda>n. None)" using nofault by simp
  show ?thesis
  proof (cases "truthy (ol_companyId l)")
    case False
    then show ?thesis
      using d f1 by (simp add: migrateOldLead_step_def s1 lead_write_ok transformLead_def)
  next
    case True
    let ?w2 = "?w1\<lparr>calls := calls ?w1 @ [Company_findUnique_id (the (ol_companyId l))]\<rparr>"
    have s2: "company_findUnique_id (the (ol_companyId l)) ?w1
        = (Inr (find (\<lambda>c. c_id c = the (ol_companyId l)) (company (newdb w))), ?w2)"
      using f1 by (simp add: company_findUnique_id_def new_call_ok)
    have f2: "faults ?w2 = (\<lambda>n. None)" using nofault by simp
    show ?thesis
      using True d f2
      by (simp add: migrateOldLead_step_def s1 s2 lead_write_ok transformLead_def)
  qed
qed

theorem C1_lead_status_precedence_witness:
  "faults world_empty = (\<lambda>n. None) \<and>
   find (\<lambda>r. l_email r = ol_email stuck_lead) (lead (newdb world_empty)) = None \<and>
   ol_isStuck stuck_lead \<and> ol_isPending stuck_lead \<and>
   map l_status (lead (newdb (snd (migrateOldLead_step stuck_lead (zero_counts, world_empty)))))
     = [''failed'']"
proof -
  have h1: "faults world_empty = (\<lambda>n. None)" by (simp add: world_empty_def no_faults_def)
  have h2: "find (\<lambda>r. l_email r = ol_email stuck_lead) (lead (newdb world_empty)) = None"
    by (simp add: world_empty_def empty_newdb_def)
  have h3: "ol_isStuck stuck_lead" "ol_isPending stuck_lead" by (simp_all add: stuck_lead_def)
  have h4: "find (\<lambda>c. c_id c = the (ol_companyId stuck_lead)) (company (newdb world_empty)) = None"
    by (simp add: world_empty_def empty_newdb_def)
  have h5: "lead (newdb world_empty) = []" by (simp add: world_empty_def empty_newdb_def)
  from C1_lead_status_precedence [OF h1 h2, of zero_counts]
  obtain w' row where
    r: "migrateOldLead_step stuck_lead (zero_counts, world_empty)
          = (zero_counts\<lparr>successCount := successCount zero_counts + 1\<rparr>, w')"
    and t: "lead (newdb w') = lead (newdb world_empty) @ [row]"
    and st: "l_status row =
              (if truthy (ol_companyId stuck_lead) \<and>
                  find (\<lambda>c. c_id c = the (ol_companyId stuck_lead))
                    (company (newdb world_empty)) \<noteq> None
               then ''converted_to_company''
               else if ol_isStuck stuck_lead then ''failed''
               else if ol_isPending stuck_lead then ''in_progress''
               else ''new_lead'')"
    by blast
  from st h3 h4 have "l_status row = ''failed''" by simp
  with r t h5 have "map l_status (lead (newdb (snd
      (migrateOldLead_step stuck_lead (zero_counts, world_empty))))) = [''failed'']"
    by simp
  with h1 h2 h3 show ?thesis by blast
qed

text \<open>
  C1 as stated fails: a lead flagged stuck (and pending) whose company resolves in the
  target store is written with the status \<open>converted_to_company\<close>, not with the
  stuck-rule outcome \<open>failed\<close> that \<open>determineLeadStatus\<close> gave it.
\<close>

theorem C1_stuck_lead_counterexample:
  "ol_isStuck stuck_lead \<and>
   determineLeadStatus stuck_lead = ''failed'' \<and>
   find (\<lambda>c. c_id c = the (ol_companyId stuck_lead)) (company (newdb world_lead))
     = Some row_superior_dashed \<and>
   map l_status (lead (newdb (snd (migrateOldLead_step stuck_lead (zero_counts, world_lead)))))
     = [''converted_to_company'']"
proof (intro conjI)
  show "ol_isStuck stuck_lead" by (simp add: stuck_lead_def)
  show "determineLeadStatus stuck_lead = ''failed''" by code_simp
  show "find (\<lambda>c. c_id c = the (ol_companyId stuck_lead)) (company (newdb world_lead))
     = Some row_superior_dashed"
    by (simp add: world_lead_def empty_newdb_def stuck_lead_def row_superior_dashed_def)
  show "map l_status (lead (newdb (snd
      (migrateOldLead_step stuck_lead (zero_counts, world_lead))))) = [''converted_to_company'']"
    by code_simp
qed

section \<open>Results: Lookup-Table Reconciler\<close>

lemma ensureCompanyStatuses_step:
  assumes "faults w = (\<lambda>n. None)"
  shows "ensureCompanyStatuses_loop ((k, v) # rest) w =
     (if find (\<lambda>r. st_key r = k) (companyStatus (newdb w)) \<noteq> None
      then ensureCompanyStatuses_loop rest
             (w\<lparr>calls := calls w @ [CompanyStatus_findUnique_key k]\<rparr>)
      else ensureCompanyStatuses_loop rest
             (w\<lparr>calls := calls w @ [CompanyStatus_findUnique_key k, CompanyStatus_create k v],
                newdb := (newdb w)\<lparr>companyStatus := companyStatus (newdb w) @
                   [status_row_of ''company_status'' k v]\<rparr>\<rparr>))"
  using assms
  by (auto simp: companyStatus_findUnique_key_def companyStatus_create_def new_call_ok
      status_row_of_def)

lemma ensureLeadStatuses_step:
  assumes "faults w = (\<lambda>n. None)"
  shows "ensureLeadStatuses_loop ((k, v) # rest) w =
     (if find (\<lambda>r. st_key r = k) (leadStatus (newdb w)) \<noteq> None
      then ensureLeadStatuses_loop rest
             (w\<lparr>calls := calls w @ [LeadStatus_findUnique_key k]\<rparr>)
      else ensureLeadStatuses_loop rest
             (w\<lparr>calls := calls w @ [LeadStatus_findUnique_key k, LeadStatus_create k v],
                newdb := (newdb w)\<lparr>leadStatus := leadStatus (newdb w) @
                   [status_row_of ''leads_status'' k v]\<rparr>\<rparr>))"
  using assms
  by (auto simp: leadStatus_findUnique_key_def leadStatus_create_def new_call_ok
      status_row_of_def)

lemma ensureCompanyStatus_ok:
  assumes "faults w = (\<lambda>n. None)"
  shows "ensureCompanyStatus w =
     (if find (\<lambda>r. st_key r = COMPANY_STATUS_KEY) (companyStatus (newdb w)) \<noteq> None
      then (Inr (), w\<lparr>calls := calls w @ [CompanyStatus_findUnique_key COMPANY_STATUS_KEY]\<rparr>)
      else if find (\<lambda>r. st_value r = COMPANY_STATUS_VALUE) (companyStatus (newdb w)) \<noteq> None
      then (Inr (), w\<lparr>calls := calls w @ [CompanyStatus_findUnique_key COMPANY_STATUS_KEY,
                          CompanyStatus_findUnique_value COMPANY_STATUS_VALUE]\<rparr>)
      else (Inr (), w\<lparr>calls := calls w @ [CompanyStatus_findUnique_key COMPANY_STATUS_KEY,
                          CompanyStatus_findUnique_value COMPANY_STATUS_VALUE,
                          CompanyStatus_create COMPANY_STATUS_KEY COMPANY_STATUS_VALUE],
                newdb := (newdb w)\<lparr>companyStatus := companyStatus (newdb w) @
                   [status_row_of ''company_status'' COMPANY_STATUS_KEY COMPANY_STATUS_VALUE]\<rparr>\<rparr>))"
  using assms
  by (auto simp: ensureCompanyStatus_def companyStatus_findUnique_key_def
      companyStatus_findUnique_value_def companyStatus_create_def new_call_ok status_row_of_def)

lemma new_call_calls: "new_call opn f w = (x, w') \<Longrightarrow> calls w' = calls w @ [opn]"
  by (auto simp: new_call_def Let_def split: option.splits prod.splits)

lemma ensureCompanyStatuses_no_value_lookup:
  "ensureCompanyStatuses_loop entries w = (x, w') \<Longrightarrow>
   \<exists>added. calls w' = calls w @ added \<and> \<not> list_ex is_value_lookup added"
proof (induction entries arbitrary: w)
  case Nil
  then show ?case by simp
next
  case (Cons kv rest)
  obtain k v where kv: "kv = (k, v)" by (cases kv)
  show ?case
    using Cons.prems Cons.IH unfolding kv
    by (fastforce simp: companyStatus_findUnique_key_def companyStatus_create_def
        split: prod.splits sum.splits option.splits dest!: new_call_calls)
qed

text \<open>
  C7 (as amended).  The reconcilers of the company and lead migrators,
  \<open>ensureCompanyStatuses\<close> and \<open>ensureLeadStatuses\<close>, look every entry up by its key
  and create the row when the key is absent; they never look up by display value, so a
  row holding the display value under another key does not prevent the creation.  Only
  \<open>ensureCompanyStatus\<close> of the interactive lead test looks up by key first, by display
  value if the key is absent, and creates only if both are absent.  (Stated for runs in
  which no database call throws; that no lookup by value is issued holds for every run.)
\<close>

theorem C7_find_or_create_by_key:
  assumes "faults w = (\<lambda>n. None)"
  shows "(ensureCompanyStatuses_loop ((k, v) # rest) w =
     (if find (\<lambda>r. st_key r = k) (companyStatus (newdb w)) \<noteq> None
      then ensureCompanyStatuses_loop rest
             (w\<lparr>calls := calls w @ [CompanyStatus_findUnique_key k]\<rparr>)
      else ensureCompanyStatuses_loop rest
             (w\<lparr>calls := calls w @ [CompanyStatus_findUnique_key k, CompanyStatus_create k v],
                newdb := (newdb w)\<lparr>companyStatus := companyStatus (newdb w) @
                   [status_row_of ''company_status'' k v]\<rparr>\<rparr>))) \<and>
    (ensureLeadStatuses_loop ((k, v) # rest) w =
     (if find (\<lambda>r. st_key r = k) (leadStatus (newdb w)) \<noteq> None
      then ensureLeadStatuses_loop rest
             (w\<lparr>calls := calls w @ [LeadStatus_findUnique_key k]\<rparr>)
      else ensureLeadStatuses_loop rest
             (w\<lparr>calls := calls w @ [LeadStatus_findUnique_key k, LeadStatus_create k v],
                newdb := (newdb w)\<lparr>leadStatus := leadStatus (newdb w) @
                   [status_row_of ''leads_status'' k v]\<rparr>\<rparr>))) \<and>
    (ensureCompanyStatus w =
     (if find (\<lambda>r. st_key r = COMPANY_STATUS_KEY) (companyStatus (newdb w)) \<noteq> None
      then (Inr (), w\<lparr>calls := calls w @ [CompanyStatus_findUnique_key COMPANY_STATUS_KEY]\<rparr>)
      else if find (\<lambda>r. st_value r = COMPANY_STATUS_VALUE) (companyStatus (newdb w)) \<noteq> None
      then (Inr (), w\<lparr>calls := calls w @ [CompanyStatus_findUnique_key COMPANY_STATUS_KEY,
                          CompanyStatus_findUnique_value COMPANY_STATUS_VALUE]\<rparr>)
      else (Inr (), w\<lparr>calls := calls w @ [CompanyStatus_findUnique_key COMPANY_STATUS_KEY,
                          CompanyStatus_findUnique_value COMPANY_STATUS_VALUE,
                          CompanyStatus_create COMPANY_STATUS_KEY COMPANY_STATUS_VALUE],
                newdb := (newdb w)\<lparr>companyStatus := companyStatus (newdb w) @
                   [status_row_of ''company_status'' COMPANY_STATUS_KEY
                      COMPANY_STATUS_VALUE]\<rparr>\<rparr>))) \<and>
    (\<exists>added. calls (snd (ensureCompanyStatuses w')) = calls w' @ added \<and>
                 \<not> list_ex is_value_lookup added)"
proof -
  have a: "ensureCompanyStatuses_loop ((k, v) # rest) w =
     (if find (\<lambda>r. st_key r = k) (companyStatus (newdb w)) \<noteq> None
      then ensureCompanyStatuses_loop rest
             (w\<lparr>calls := calls w @ [CompanyStatus_findUnique_key k]\<rparr>)
      else ensureCompanyStatuses_loop rest
             (w\<lparr>calls := calls w @ [CompanyStatus_findUnique_key k, CompanyStatus_create k v],
                newdb := (newdb w)\<lparr>companyStatus := companyStatus (newdb w) @
                   [status_row_of ''company_status'' k v]\<rparr>\<rparr>))"
    using assms by (rule ensureCompanyStatuses_step)
  have b: "ensureLeadStatuses_loop ((k, v) # rest) w =
     (if find (\<lambda>r. st_key r = k) (leadStatus (newdb w)) \<noteq> None
      then ensureLeadStatuses_loop rest
             (w\<lparr>calls := calls w @ [LeadStatus_findUnique_key k]\<rparr>)
      else ensureLeadStatuses_loop rest
             (w\<lparr>calls := calls w @ [LeadStatus_findUnique_key k, LeadStatus_create k v],
                newdb := (newdb w)\<lparr>leadStatus := leadStatus (newdb w) @
                   [status_row_of ''leads_status'' k v]\<rparr>\<rparr>))"
    using assms by (rule ensureLeadStatuses_step)
  have c: "ensureCompanyStatus w =
     (if find (\<lambda>r. st_key r = COMPANY_STATUS_KEY) (companyStatus (newdb w)) \<noteq> None
      then (Inr (), w\<lparr>calls := calls w @ [CompanyStatus_findUnique_key COMPANY_STATUS_KEY]\<rparr>)
      else if find (\<lambda>r. st_value r = COMPANY_STATUS_VALUE) (companyStatus (newdb w)) \<noteq> None
      then (Inr (), w\<lparr>calls := calls w @ [CompanyStatus_findUnique_key COMPANY_STATUS_KEY,
                          CompanyStatus_findUnique_value COMPANY_STATUS_VALUE]\<rparr>)
      else (Inr (), w\<lparr>calls := calls w @ [CompanyStatus_findUnique_key COMPANY_STATUS_KEY,
                          CompanyStatus_findUnique_value COMPANY_STATUS_VALUE,
                          CompanyStatus_create COMPANY_STATUS_KEY COMPANY_STATUS_VALUE],
                newdb := (newdb w)\<lparr>companyStatus := companyStatus (newdb w) @
                   [status_row_of ''company_status'' COMPANY_STATUS_KEY
                      COMPANY_STATUS_VALUE]\<rparr>\<rparr>))"
    using assms by (rule ensureCompanyStatus_ok)
  have d: "\<exists>added. calls (snd (ensureCompanyStatuses w')) = calls w' @ added \<and>
                 \<not> list_ex is_value_lookup added"
    unfolding ensureCompanyStatuses_def
    by (rule ensureCompanyStatuses_no_value_lookup
          [of COMPANY_STATUSES w' "fst (ensureCompanyStatuses_loop COMPANY_STATUSES w')"]) simp
  show ?thesis
    apply (rule conjI, rule a)
    apply (rule conjI, rule b)
    apply (rule conjI, rule c)
    by (rule d)
qed

theorem C7_find_or_create_by_key_witness:
  "faults world_value_only = (\<lambda>n. None) \<and>
   calls (snd (ensureCompanyStatus world_value_only))
     = [CompanyStatus_findUnique_key ''potential_client'',
        CompanyStatus_findUnique_value ''Potential Client''] \<and>
   companyStatus (newdb (snd (ensureCompanyStatus world_value_only)))
     = companyStatus (newdb world_value_only)"
proof -
  have h: "faults world_value_only = (\<lambda>n. None)"
    by (simp add: world_value_only_def no_faults_def)
  have k: "find (\<lambda>r. st_key r = COMPANY_STATUS_KEY) (companyStatus (newdb world_value_only))
             = None"
    by (simp add: world_value_only_def empty_newdb_def COMPANY_STATUS_KEY_def)
  have v: "find (\<lambda>r. st_value r = COMPANY_STATUS_VALUE) (companyStatus (newdb world_value_only))
             \<noteq> None"
    by (simp add: world_value_only_def empty_newdb_def COMPANY_STATUS_VALUE_def)
  have c: "calls world_value_only = []" by (simp add: world_value_only_def)
  from C7_find_or_create_by_key [OF h, THEN conjunct2, THEN conjunct2, THEN conjunct1] k v
  have "ensureCompanyStatus world_value_only =
     (Inr (), world_value_only\<lparr>calls := calls world_value_only @
        [CompanyStatus_findUnique_key COMPANY_STATUS_KEY,
         CompanyStatus_findUnique_value COMPANY_STATUS_VALUE]\<rparr>)"
    by simp
  then show ?thesis
    using h c by (simp add: COMPANY_STATUS_KEY_def COMPANY_STATUS_VALUE_def)
qed

text \<open>
  C7 as stated fails for the company migrator's reconciler: with the display value
  \<open>Potential Client\<close> already stored under the key \<open>potential\<close>, it issues no lookup
  by value and creates a second row with that display value.
\<close>

theorem C7_value_only_counterexample:
  "find (\<lambda>r. st_value r = ''Potential Client'') (companyStatus (newdb world_value_only))
     \<noteq> None \<and>
   \<not> list_ex is_value_lookup (calls (snd (ensureCompanyStatuses world_value_only))) \<and>
   CompanyStatus_create ''potential_client'' ''Potential Client''
     \<in> set (calls (snd (ensureCompanyStatuses world_value_only))) \<and>
   length (filter (\<lambda>r. st_value r = ''Potential Client'')
     (companyStatus (newdb (snd (ensureCompanyStatuses world_value_only))))) = 2"
proof (intro conjI)
  show "find (\<lambda>r. st_value r = ''Potential Client'') (companyStatus (newdb world_value_only))
     \<noteq> None"
    by (simp add: world_value_only_def empty_newdb_def)
  show "\<not> list_ex is_value_lookup (calls (snd (ensureCompanyStatuses world_value_only)))"
    by code_simp
  show "CompanyStatus_create ''potential_client'' ''Potential Client''
     \<in> set (calls (snd (ensureCompanyStatuses world_value_only)))"
    by code_simp
  show "length (filter (\<lambda>r. st_value r = ''Potential Client'')
     (companyStatus (newdb (snd (ensureCompanyStatuses world_value_only))))) = 2"
    by code_simp
qed

section \<open>Results: process exit\<close>

text \<open>
  C8.  When the status seeding that precedes all record processing throws, the run should
  end with a non-zero exit code, and exit code 0 should mean that a report was emitted.
  In the run below the first lookup of the seeding throws: \<open>ensureCompanyStatuses\<close>
  rethrows, the \<open>catch\<close> of \<open>migrateCompanies\<close> swallows the error, no company is
  processed and no report is emitted, and the script exits with code 0.
\<close>

theorem C8_seed_failure_exits_zero:
  "fst (ensureCompanyStatuses world_seed_fails) = Inl (DbError ''P1001'' []) \<and>
   fst (migrateCompanies no_json world_seed_fails) = Inr None \<and>
   company (newdb (snd (migrateCompanies no_json world_seed_fails))) = [] \<and>
   company_script_exit_code no_json world_seed_fails = 0"
proof (intro conjI)
  show "fst (ensureCompanyStatuses world_seed_fails) = Inl (DbError ''P1001'' [])"
    by code_simp
  show "fst (migrateCompanies no_json world_seed_fails) = Inr None"
    by code_simp
  show "company (newdb (snd (migrateCompanies no_json world_seed_fails))) = []"
    by code_simp
  show "company_script_exit_code no_json world_seed_fails = 0"
    by code_simp
qed

section \<open>Results: running a migration twice\<close>

lemma new_call_Inr:
  "new_call opn f w = (Inr a, w') \<Longrightarrow> newdb w' = snd (f (newdb w)) \<and> a = fst (f (newdb w))"
  by (auto simp: new_call_def Let_def split: option.splits prod.splits)

lemma new_call_no_fault:
  "faults w (length (calls w)) = None \<Longrightarrow>
   new_call opn f w =
     (Inr (fst (f (newdb w))), w\<lparr>calls := calls w @ [opn], newdb := snd (f (newdb w))\<rparr>)"
  by (simp add: new_call_def Let_def split: prod.splits)

lemma position_create_rows:
  "position_create row w = (Inr u, w') \<Longrightarrow> position (newdb w') = position (newdb w) @ [row]"
  unfolding position_create_def by (drule new_call_Inr) simp

lemma contact_create_rows:
  "contact_create row w = (Inr u, w') \<Longrightarrow> contact (newdb w') = contact (newdb w) @ [row]"
  unfolding contact_create_def by (drule new_call_Inr) simp

lemma migratePosition_Success:
  "migratePosition p w = (Success m, w1) \<Longrightarrow>
     normalizeUuid (Some (op_id p)) = Some m \<and> (\<exists>r \<in> set (position (newdb w1)). p_id r = m)"
  unfolding migratePosition_def Let_def
  by (auto split: prod.splits sum.splits option.splits if_splits
      dest!: position_create_rows simp: inc_successful_def)

lemma contact_catch_not_Success: "contact_catch c e w \<noteq> (Success m, w')"
  by (simp add: contact_catch_def)

lemma migrateContact_Success:
  "migrateContact rs c w = (Success m, w1) \<Longrightarrow>
     normalizeUuid (Some (oct_id c)) = Some m \<and> (\<exists>r \<in> set (contact (newdb w1)). ct_id r = m)"
  unfolding migrateContact_def Let_def
  by (auto split: prod.splits sum.splits option.splits if_splits
      dest!: contact_create_rows simp: inc_successful_def contact_catch_not_Success)

lemma migratePosition_Duplicate:
  assumes "faults w (length (calls w)) = None"
    and "normalizeUuid (Some (op_id p)) = Some m"
    and "r \<in> set (position (newdb w))" "p_id r = m"
  shows "\<exists>w'. migratePosition p w = (Duplicate m, w') \<and> newdb w' = newdb w"
proof -
  from find_exists [of r "position (newdb w)" "\<lambda>r. p_id r = m", OF assms(3) assms(4)]
  obtain y where y: "find (\<lambda>r. p_id r = m) (position (newdb w)) = Some y" by blast
  have f: "faults (inc_total w) (length (calls (inc_total w))) = None"
    using assms(1) by (simp add: inc_total_def)
  show ?thesis
    using assms(2) y
    by (simp add: migratePosition_def position_findUnique_def new_call_no_fault [OF f]
        inc_duplicates_def) (simp add: inc_total_def inc_duplicates_def)
qed

lemma migrateContact_Duplicate:
  assumes "faults w (length (calls w)) = None"
    and "normalizeUuid (Some (oct_id c)) = Some m"
    and "r \<in> set (contact (newdb w))" "ct_id r = m"
  shows "\<exists>w'. migrateContact rs c w = (Duplicate m, w') \<and> newdb w' = newdb w"
proof -
  from find_exists [of r "contact (newdb w)" "\<lambda>r. ct_id r = m", OF assms(3) assms(4)]
  obtain y where y: "find (\<lambda>r. ct_id r = m) (contact (newdb w)) = Some y" by blast
  have f: "faults (inc_total w) (length (calls (inc_total w))) = None"
    using assms(1) by (simp add: inc_total_def)
  show ?thesis
    using assms(2) y
    by (simp add: migrateContact_def contact_findUnique_def new_call_no_fault [OF f]
        inc_duplicates_def) (simp add: inc_total_def inc_duplicates_def)
qed

lemma map_replace_id:
  "(\<forall>c \<in> set T. c_id c = i \<longrightarrow> c = row) \<Longrightarrow> map (\<lambda>c. if c_id c = i then row else c) T = T"
  by (induction T) auto

lemma upsert_rows_idem: "upsert_rows row (upsert_rows row T) = upsert_rows row T"
proof (cases "\<exists>c \<in> set T. c_id c = c_id row")
  case True
  then have T': "upsert_rows row T = map (\<lambda>c. if c_id c = c_id row then row else c) T"
    by (simp add: upsert_rows_def)
  have ex: "\<exists>c \<in> set (upsert_rows row T). c_id c = c_id row"
    using True unfolding T' by auto
  have all: "\<forall>c \<in> set (upsert_rows row T). c_id c = c_id row \<longrightarrow> c = row"
    unfolding T' by auto
  show ?thesis
    using ex map_replace_id [OF all] by (simp add: upsert_rows_def [of row "upsert_rows row T"])
next
  case False
  then have T': "upsert_rows row T = T @ [row]" by (simp add: upsert_rows_def)
  have all: "\<forall>c \<in> set (T @ [row]). c_id c = c_id row \<longrightarrow> c = row" using False by auto
  show ?thesis
    unfolding T' using map_replace_id [OF all] by (simp add: upsert_rows_def)
qed

lemma find_domain_map:
  assumes "\<exists>c \<in> set T. c_id c = c_id row"
    and "find (\<lambda>c. c_domain c = c_domain row) T = None
         \<or> c_id (the (find (\<lambda>c. c_domain c = c_domain row) T)) = c_id row"
  shows "\<exists>r. find (\<lambda>c. c_domain c = c_domain row)
               (map (\<lambda>c. if c_id c = c_id row then row else c) T) = Some r \<and> c_id r = c_id row"
  using assms
proof (induction T)
  case Nil
  then show ?case by simp
next
  case (Cons a T)
  show ?case
  proof (cases "c_id a = c_id row")
    case True
    then show ?thesis by simp
  next
    case False
    with Cons.prems(1) have ex: "\<exists>c \<in> set T. c_id c = c_id row" by auto
    show ?thesis
    proof (cases "c_domain a = c_domain row")
      case True
      with Cons.prems(2) False show ?thesis by simp
    next
      case d: False
      with Cons.prems(2)
      have "find (\<lambda>c. c_domain c = c_domain row) T = None
         \<or> c_id (the (find (\<lambda>c. c_domain c = c_domain row) T)) = c_id row"
        by simp
      from Cons.IH [OF ex this] show ?thesis using False d by simp
    qed
  qed
qed

lemma find_append_None: "find P xs = None \<Longrightarrow> find P (xs @ ys) = find P ys"
  by (induction xs) (auto split: if_splits)

lemma find_domain_upsert:
  assumes "find (\<lambda>c. c_domain c = c_domain row) T = None
         \<or> c_id (the (find (\<lambda>c. c_domain c = c_domain row) T)) = c_id row"
  shows "\<exists>r. find (\<lambda>c. c_domain c = c_domain row) (upsert_rows row T) = Some r
             \<and> c_id r = c_id row"
proof (cases "\<exists>c \<in> set T. c_id c = c_id row")
  case True
  with find_domain_map [OF True assms] show ?thesis by (simp add: upsert_rows_def)
next
  case False
  have "find (\<lambda>c. c_domain c = c_domain row) T = None"
  proof (rule ccontr)
    assume "find (\<lambda>c. c_domain c = c_domain row) T \<noteq> None"
    then obtain y where y: "find (\<lambda>c. c_domain c = c_domain row) T = Some y" by auto
    with assms have "c_id y = c_id row" by simp
    moreover from find_Some_mem [OF y] have "y \<in> set T" by simp
    ultimately show False using False by blast
  qed
  then show ?thesis using False by (simp add: upsert_rows_def find_append_None)
qed

lemma company_upsert_rows:
  "company_upsert row w = (Inr u, w') \<Longrightarrow>
     newdb w' = (newdb w)\<lparr>company := upsert_rows row (company (newdb w))\<rparr>"
  unfolding company_upsert_def by (drule new_call_Inr) simp

lemma count_error_successCount: "successCount (count_error col e n) = successCount n"
  by (simp add: count_error_def)

lemma migrateCompany_step_success:
  assumes "migrateCompany_step J oc (n, w) = (n', w1)"
    and "successCount n' = successCount n + 1"
  shows "newdb w1 = (newdb w)\<lparr>company := upsert_rows (transformCompany J oc) (company (newdb w))\<rparr>
     \<and> (find (\<lambda>c. c_domain c = c_domain (transformCompany J oc)) (company (newdb w)) = None
        \<or> c_id (the (find (\<lambda>c. c_domain c = c_domain (transformCompany J oc))
              (company (newdb w)))) = c_id (transformCompany J oc))"
  using assms unfolding migrateCompany_step_def Let_def company_findUnique_domain_def
  by (auto split: prod.splits sum.splits if_splits
      dest!: company_upsert_rows new_call_Inr simp: count_error_successCount)

lemma transformCompany_id [simp]: "c_id (transformCompany J oc) = oc_id oc"
  by (simp add: transformCompany_def Let_def)

lemma transformCompany_domain [simp]: "c_domain (transformCompany J oc) = oc_domain oc"
  by (simp add: transformCompany_def Let_def)

lemma upsert_rows_all_row:
  "list_all (\<lambda>c. c_id c = c_id row \<longrightarrow> c = row) (upsert_rows row T)"
  by (auto simp: upsert_rows_def list_all_iff)

lemma settled_after_upsert:
  assumes "find (\<lambda>c. c_domain c = c_domain row) T = None
         \<or> c_id (the (find (\<lambda>c. c_domain c = c_domain row) T)) = c_id row"
  shows "company_settled row (upsert_rows row T)"
  using find_domain_upsert [OF assms] upsert_rows_all_row [of row T]
  by (auto simp: company_settled_def)

lemma find_map_other:
  assumes "find (\<lambda>c. c_domain c = d) T = Some r" "c_id r \<noteq> c_id orow"
    and "c_domain orow \<noteq> d"
  shows "find (\<lambda>c. c_domain c = d) (map (\<lambda>c. if c_id c = c_id orow then orow else c) T)
           = Some r"
  using assms by (induction T) (auto split: if_splits)

lemma find_append_Some: "find P xs = Some x \<Longrightarrow> find P (xs @ ys) = Some x"
  by (induction xs) (auto split: if_splits)

lemma settled_upsert_other:
  assumes s: "company_settled row T"
    and i: "c_id orow \<noteq> c_id row" and d: "c_domain orow \<noteq> c_domain row"
  shows "company_settled row (upsert_rows orow T)"
proof -
  from s obtain r where r: "find (\<lambda>c. c_domain c = c_domain row) T = Some r" "c_id r = c_id row"
    by (auto simp: company_settled_def split: option.splits)
  from s have a: "\<forall>c \<in> set T. c_id c = c_id row \<longrightarrow> c = row"
    by (simp add: company_settled_def list_all_iff)
  have f: "find (\<lambda>c. c_domain c = c_domain row) (upsert_rows orow T) = Some r"
  proof (cases "\<exists>c \<in> set T. c_id c = c_id orow")
    case True
    with find_map_other [OF r(1), of orow] r(2) i d show ?thesis
      by (simp add: upsert_rows_def)
  next
    case False
    with find_append_Some [OF r(1)] show ?thesis by (simp add: upsert_rows_def)
  qed
  have b: "\<forall>c \<in> set (upsert_rows orow T). c_id c = c_id row \<longrightarrow> c = row"
    using a i by (auto simp: upsert_rows_def split: if_splits)
  from f r(2) b show ?thesis by (simp add: company_settled_def list_all_iff)
qed

lemma migrateCompany_step_table:
  "migrateCompany_step J oc (n, w) = (n', w') \<Longrightarrow>
     company (newdb w') = company (newdb w) \<or>
     company (newdb w') = upsert_rows (transformCompany J oc) (company (newdb w))"
  unfolding migrateCompany_step_def Let_def company_findUnique_domain_def company_upsert_def
  by (auto split: prod.splits sum.splits if_splits dest!: new_call_newdb)

lemma settled_step_other:
  assumes "company_settled row (company (newdb w))"
    and "oc_id oc \<noteq> c_id row" "oc_domain oc \<noteq> c_domain row"
  shows "company_settled row (company (newdb (snd (migrateCompany_step J oc (n, w)))))"
proof -
  obtain n' w' where e: "migrateCompany_step J oc (n, w) = (n', w')" by (cases "migrateCompany_step J oc (n, w)")
  from migrateCompany_step_table [OF e] assms
    settled_upsert_other [of row "company (newdb w)" "transformCompany J oc"]
  show ?thesis by (auto simp: e)
qed

lemma settled_fold_others:
  assumes "company_settled row (company (newdb w))"
    and "\<forall>oc \<in> set ocs. oc_id oc \<noteq> c_id row \<and> oc_domain oc \<noteq> c_domain row"
  shows "company_settled row (company (newdb (snd (fold (migrateCompany_step J) ocs (n, w)))))"
  using assms
proof (induction ocs arbitrary: n w)
  case Nil
  then show ?case by simp
next
  case (Cons oc ocs)
  obtain n' w' where e: "migrateCompany_step J oc (n, w) = (n', w')"
    by (cases "migrateCompany_step J oc (n, w)")
  from settled_step_other [of row w oc J n] Cons.prems e
  have "company_settled row (company (newdb w'))" by simp
  from Cons.IH [OF this, of n'] Cons.prems(2) show ?case by (simp add: e)
qed

lemma migrateCompany_step_settled:
  assumes f1: "faults w1 (length (calls w1)) = None"
    and f2: "faults w1 (Suc (length (calls w1))) = None"
    and s: "company_settled (transformCompany J oc) (company (newdb w1))"
  shows "\<exists>w2. migrateCompany_step J oc (m, w1) = (m\<lparr>successCount := successCount m + 1\<rparr>, w2)
           \<and> newdb w2 = newdb w1"
proof -
  define row where "row = transformCompany J oc"
  from s obtain r where r: "find (\<lambda>c. c_domain c = c_domain row) (company (newdb w1)) = Some r"
    and rid: "c_id r = c_id row"
    by (auto simp: company_settled_def row_def split: option.splits)
  from s have a: "\<forall>c \<in> set (company (newdb w1)). c_id c = c_id row \<longrightarrow> c = row"
    by (simp add: company_settled_def list_all_iff row_def)
  from find_Some_mem [OF r] rid have ex: "\<exists>c \<in> set (company (newdb w1)). c_id c = c_id row"
    by blast
  have "upsert_rows row (company (newdb w1)) = company (newdb w1)"
    using ex map_replace_id [OF a] by (simp add: upsert_rows_def)
  then have same: "(newdb w1)\<lparr>company := upsert_rows row (company (newdb w1))\<rparr> = newdb w1"
    by simp
  show ?thesis
    using f1 f2 r rid same
    by (simp add: migrateCompany_step_def row_def [symmetric] company_findUnique_domain_def
        company_upsert_def new_call_no_fault)
qed

lemma migrateCompany_step_settles:
  assumes "migrateCompany_step J oc (n, w) = (n', w1)"
    and "successCount n' = successCount n + 1"
  shows "company_settled (transformCompany J oc) (company (newdb w1))"
proof -
  from migrateCompany_step_success [OF assms]
  have n: "newdb w1 = (newdb w)\<lparr>company := upsert_rows (transformCompany J oc) (company (newdb w))\<rparr>"
    and f: "find (\<lambda>c. c_domain c = c_domain (transformCompany J oc)) (company (newdb w)) = None
        \<or> c_id (the (find (\<lambda>c. c_domain c = c_domain (transformCompany J oc))
              (company (newdb w)))) = c_id (transformCompany J oc)"
    by blast+
  from settled_after_upsert [OF f] n show ?thesis by simp
qed

lemma company_rerun:
  assumes others: "\<forall>X \<in> set pre \<union> set post. oc_id X \<noteq> oc_id oc \<and> oc_domain X \<noteq> oc_domain oc"
    and first: "migrateCompany_step J oc (n, u) = (n1, u1)" "successCount n1 = successCount n + 1"
    and rest: "fold (migrateCompany_step J) post (n1, u1) = (nf, uf)"
    and start: "company (newdb v0) = company (newdb uf)"
    and again: "fold (migrateCompany_step J) pre (m0, v0) = (m, v)"
    and f: "faults v (length (calls v)) = None" "faults v (Suc (length (calls v))) = None"
  shows "\<exists>v'. migrateCompany_step J oc (m, v) = (m\<lparr>successCount := successCount m + 1\<rparr>, v')
           \<and> newdb v' = newdb v"
proof -
  let ?row = "transformCompany J oc"
  have s1: "company_settled ?row (company (newdb u1))"
    using first by (rule migrateCompany_step_settles)
  have "company_settled ?row (company (newdb (snd (fold (migrateCompany_step J) post (n1, u1)))))"
    by (rule settled_fold_others [OF s1]) (use others in auto)
  then have "company_settled ?row (company (newdb v0))" using rest start by simp
  then have "company_settled ?row (company (newdb (snd (fold (migrateCompany_step J) pre (m0, v0)))))"
    by (rule settled_fold_others) (use others in auto)
  then have st: "company_settled ?row (company (newdb v))" using again by simp
  from migrateCompany_step_settled [OF f(1) f(2) st, of m] show ?thesis .
qed

text \<open>
  C2 (as amended).  A position or contact that one call classified \<open>Success\<close> is
  classified \<open>Duplicate\<close> by any later call that finds the target store still holding
  the rows of the first (and whose first lookup does not throw), and that later call
  leaves the target store as it was; the position and contact migrators never remove a
  row, so this holds for the whole of a second run.  The company migrator does not skip.
  Let the legacy companies have pairwise different identifiers and domains, as the source
  schema demands, and let the loop body count a company as a success in the first run.
  When the second run, started on a target store with the company table the first run
  left, reaches that company, the loop body counts it as a success again (its two calls
  not throwing), by an upsert that leaves the target store as it was.  Nothing is said
  about the records the first run skipped or failed: the second run may write them.
\<close>

theorem C2_rerun_outcomes:
  "(migratePosition p w = (Success m, w1) \<and>
      set (position (newdb w1)) \<subseteq> set (position (newdb w2)) \<and>
      faults w2 (length (calls w2)) = None \<longrightarrow>
      (\<exists>w3. migratePosition p w2 = (Duplicate m, w3) \<and> newdb w3 = newdb w2)) \<and>
   (migrateContact rs c v = (Success k, v1) \<and>
      set (contact (newdb v1)) \<subseteq> set (contact (newdb v2)) \<and>
      faults v2 (length (calls v2)) = None \<longrightarrow>
      (\<exists>v3. migrateContact rs' c v2 = (Duplicate k, v3) \<and> newdb v3 = newdb v2)) \<and>
   ((\<forall>X \<in> set pre \<union> set post. oc_id X \<noteq> oc_id oc \<and> oc_domain X \<noteq> oc_domain oc) \<and>
      migrateCompany_step J oc (n, u) = (n1, u1) \<and> successCount n1 = successCount n + 1 \<and>
      fold (migrateCompany_step J) post (n1, u1) = (nf, uf) \<and>
      company (newdb u0) = company (newdb uf) \<and>
      fold (migrateCompany_step J) pre (n0, u0) = (n2, u2) \<and>
      faults u2 (length (calls u2)) = None \<and> faults u2 (Suc (length (calls u2))) = None \<longrightarrow>
      (\<exists>u3. migrateCompany_step J oc (n2, u2) = (n2\<lparr>successCount := successCount n2 + 1\<rparr>, u3)
            \<and> newdb u3 = newdb u2)) \<and>
   set (position (newdb x)) \<subseteq> set (position (newdb (snd (migratePosition p' x)))) \<and>
   set (contact (newdb y)) \<subseteq> set (contact (newdb (snd (migrateContact rs'' c' y))))"
proof (intro conjI impI)
  assume a: "migratePosition p w = (Success m, w1) \<and>
      set (position (newdb w1)) \<subseteq> set (position (newdb w2)) \<and>
      faults w2 (length (calls w2)) = None"
  from a migratePosition_Success [of p w m w1]
  obtain r where r: "normalizeUuid (Some (op_id p)) = Some m"
      "r \<in> set (position (newdb w1))" "p_id r = m"
    by blast
  from a r(2) have "r \<in> set (position (newdb w2))" by blast
  with a r show "\<exists>w3. migratePosition p w2 = (Duplicate m, w3) \<and> newdb w3 = newdb w2"
    using migratePosition_Duplicate [of w2 p m r] by blast
next
  assume a: "migrateContact rs c v = (Success k, v1) \<and>
      set (contact (newdb v1)) \<subseteq> set (contact (newdb v2)) \<and>
      faults v2 (length (calls v2)) = None"
  from a migrateContact_Success [of rs c v k v1]
  obtain r where r: "normalizeUuid (Some (oct_id c)) = Some k"
      "r \<in> set (contact (newdb v1))" "ct_id r = k"
    by blast
  from a r(2) have "r \<in> set (contact (newdb v2))" by blast
  with a r show "\<exists>v3. migrateContact rs' c v2 = (Duplicate k, v3) \<and> newdb v3 = newdb v2"
    using migrateContact_Duplicate [of v2 c k r rs'] by blast
next
  assume a: "(\<forall>X \<in> set pre \<union> set post. oc_id X \<noteq> oc_id oc \<and> oc_domain X \<noteq> oc_domain oc) \<and>
      migrateCompany_step J oc (n, u) = (n1, u1) \<and> successCount n1 = successCount n + 1 \<and>
      fold (migrateCompany_step J) post (n1, u1) = (nf, uf) \<and>
      company (newdb u0) = company (newdb uf) \<and>
      fold (migrateCompany_step J) pre (n0, u0) = (n2, u2) \<and>
      faults u2 (length (calls u2)) = None \<and> faults u2 (Suc (length (calls u2))) = None"
  then have others: "\<forall>X \<in> set pre \<union> set post. oc_id X \<noteq> oc_id oc \<and> oc_domain X \<noteq> oc_domain oc"
    and first: "migrateCompany_step J oc (n, u) = (n1, u1)" "successCount n1 = successCount n + 1"
    and rest: "fold (migrateCompany_step J) post (n1, u1) = (nf, uf)"
    and start: "company (newdb u0) = company (newdb uf)"
    and again: "fold (migrateCompany_step J) pre (n0, u0) = (n2, u2)"
    and f: "faults u2 (length (calls u2)) = None" "faults u2 (Suc (length (calls u2))) = None"
    by blast+
  from company_rerun [OF others first rest start again f]
  show "\<exists>u3. migrateCompany_step J oc (n2, u2) = (n2\<lparr>successCount := successCount n2 + 1\<rparr>, u3)
            \<and> newdb u3 = newdb u2" .
next
  show "set (position (newdb x)) \<subseteq> set (position (newdb (snd (migratePosition p' x))))"
    by (rule migratePosition_keeps_rows [of p' x "fst (migratePosition p' x)"]) simp
next
  show "set (contact (newdb y)) \<subseteq> set (contact (newdb (snd (migrateContact rs'' c' y))))"
    by (rule migrateContact_keeps_rows [of rs'' c' y "fst (migrateContact rs'' c' y)"]) simp
qed

theorem C2_rerun_outcomes_witness:
  "fst (migratePosition example_position world_one_match)
     = Success ''9b2f7c1e0d4a4e5b8f6a1c2d3e4f5a6b'' \<and>
   fst (migratePosition example_position (snd (migratePosition example_position world_one_match)))
     = Duplicate ''9b2f7c1e0d4a4e5b8f6a1c2d3e4f5a6b'' \<and>
   fst (migrateContact ''k3x9q2'' example_contact world_one_match)
     = Success ''3c4d5e6f7a8b4c9d8e0fa1b2c3d4e5f6'' \<and>
   fst (migrateContact ''zz81ab'' example_contact
          (snd (migrateContact ''k3x9q2'' example_contact world_one_match)))
     = Duplicate ''3c4d5e6f7a8b4c9d8e0fa1b2c3d4e5f6'' \<and>
   fst (fold (migrateCompany_step no_json) [old_company_y] (zero_counts, world_stale_domain))
     = \<lparr>successCount = 0, existingCount = 1, errorCount = 0\<rparr> \<and>
   fst (migrateCompany_step no_json old_company_x
         (fold (migrateCompany_step no_json) [old_company_y] (zero_counts, world_stale_domain)))
     = \<lparr>successCount = 1, existingCount = 1, errorCount = 0\<rparr> \<and>
   fst (fold (migrateCompany_step no_json) [old_company_y]
         (zero_counts, snd (migrateCompany_step no_json old_company_x
            (fold (migrateCompany_step no_json) [old_company_y]
               (zero_counts, world_stale_domain)))))
     = \<lparr>successCount = 1, existingCount = 0, errorCount = 0\<rparr> \<and>
   successCount (fst (migrateCompany_step no_json old_company_x
         (fold (migrateCompany_step no_json) [old_company_y]
            (zero_counts, snd (migrateCompany_step no_json old_company_x
               (fold (migrateCompany_step no_json) [old_company_y]
                  (zero_counts, world_stale_domain)))))))
     = 2"
proof -
  let ?m = "''9b2f7c1e0d4a4e5b8f6a1c2d3e4f5a6b''"
  let ?k = "''3c4d5e6f7a8b4c9d8e0fa1b2c3d4e5f6''"
  let ?w1 = "snd (migratePosition example_position world_one_match)"
  let ?v1 = "snd (migrateContact ''k3x9q2'' example_contact world_one_match)"
  let ?step = "migrateCompany_step no_json"
  let ?a = "fold ?step [old_company_y] (zero_counts, world_stale_domain)"
  let ?b = "?step old_company_x ?a"
  let ?c = "fold ?step [old_company_y] (zero_counts, snd ?b)"
  have p1: "fst (migratePosition example_position world_one_match) = Success ?m" by code_simp
  have p2: "faults ?w1 (length (calls ?w1)) = None" by code_simp
  have c1: "fst (migrateContact ''k3x9q2'' example_contact world_one_match) = Success ?k"
    by code_simp
  have c2: "faults ?v1 (length (calls ?v1)) = None" by code_simp
  have k0: "fst ?a = \<lparr>successCount = 0, existingCount = 1, errorCount = 0\<rparr>" by code_simp
  have k1: "fst ?b = \<lparr>successCount = 1, existingCount = 1, errorCount = 0\<rparr>" by code_simp
  have k2: "fst ?c = \<lparr>successCount = 1, existingCount = 0, errorCount = 0\<rparr>" by code_simp
  have k3: "faults (snd ?c) (length (calls (snd ?c))) = None" by code_simp
  have k4: "faults (snd ?c) (Suc (length (calls (snd ?c)))) = None" by code_simp
  have others: "\<forall>X \<in> set [old_company_y] \<union> set [].
      oc_id X \<noteq> oc_id old_company_x \<and> oc_domain X \<noteq> oc_domain old_company_x"
    by (simp add: old_company_x_def old_company_y_def)
  have first: "?step old_company_x (fst ?a, snd ?a) = (fst ?b, snd ?b)" by simp
  have succ: "successCount (fst ?b) = successCount (fst ?a) + 1" by code_simp
  have rest: "fold ?step [] (fst ?b, snd ?b) = (fst ?b, snd ?b)" by simp
  have again: "fold ?step [old_company_y] (zero_counts, snd ?b) = (fst ?c, snd ?c)" by simp
  note t = C2_rerun_outcomes [where p = example_position and w = world_one_match and m = ?m
      and ?w1.0 = ?w1 and ?w2.0 = ?w1
      and rs = "''k3x9q2''" and c = example_contact and v = world_one_match and k = ?k
      and ?v1.0 = ?v1 and ?v2.0 = ?v1 and rs' = "''zz81ab''"
      and J = no_json and oc = old_company_x and pre = "[old_company_y]" and post = "[]"
      and n = "fst ?a" and u = "snd ?a" and ?n1.0 = "fst ?b" and ?u1.0 = "snd ?b"
      and nf = "fst ?b" and uf = "snd ?b" and ?u0.0 = "snd ?b" and ?n0.0 = zero_counts
      and ?n2.0 = "fst ?c" and ?u2.0 = "snd ?c"]
  from p1 have pe: "migratePosition example_position world_one_match = (Success ?m, ?w1)"
    by (simp add: prod_eq_iff)
  from t pe p2 obtain w3 where "migratePosition example_position ?w1 = (Duplicate ?m, w3)"
    by blast
  then have P: "fst (migratePosition example_position ?w1) = Duplicate ?m" by simp
  from c1 have ce: "migrateContact ''k3x9q2'' example_contact world_one_match = (Success ?k, ?v1)"
    by (simp add: prod_eq_iff)
  from t ce c2 obtain v3 where "migrateContact ''zz81ab'' example_contact ?v1 = (Duplicate ?k, v3)"
    by blast
  then have C: "fst (migrateContact ''zz81ab'' example_contact ?v1) = Duplicate ?k" by simp
  from t others first succ rest again k3 k4 obtain u3 where
    "?step old_company_x (fst ?c, snd ?c) = ((fst ?c)\<lparr>successCount := successCount (fst ?c) + 1\<rparr>, u3)"
    by blast
  then have "successCount (fst (?step old_company_x ?c)) = successCount (fst ?c) + 1" by simp
  then have K: "successCount (fst (?step old_company_x ?c)) = 2" unfolding k2 by simp
  from p1 P c1 C k0 k1 k2 K show ?thesis by blast
qed

text \<open>
  C2 as stated fails for the company migrator.  Run twice on a source store with one
  company, the second run reports that company as successfully migrated again, with no
  record skipped as already existing; the target store still holds one company.  And a
  second run can add a row: with the source companies \<open>y.com\<close> and \<open>x.com\<close> and the
  second of them stored under the stale domain \<open>y.com\<close>, the first run skips \<open>y.com\<close>
  and rewrites the stored row, and the second run then creates \<open>y.com\<close>.
\<close>

theorem C2_company_rerun_counterexample:
  "fst (migrateCompanies no_json world_company_run)
     = Inr (Some \<lparr>successCount = 1, existingCount = 0, errorCount = 0\<rparr>) \<and>
   fst (migrateCompanies no_json (snd (migrateCompanies no_json world_company_run)))
     = Inr (Some \<lparr>successCount = 1, existingCount = 0, errorCount = 0\<rparr>) \<and>
   length (company (newdb (snd (migrateCompanies no_json
       (snd (migrateCompanies no_json world_company_run)))))) = 1 \<and>
   fst (migrateCompanies no_json world_stale_domain)
     = Inr (Some \<lparr>successCount = 1, existingCount = 1, errorCount = 0\<rparr>) \<and>
   map c_domain (company (newdb (snd (migrateCompanies no_json world_stale_domain))))
     = [''x.com''] \<and>
   fst (migrateCompanies no_json (snd (migrateCompanies no_json world_stale_domain)))
     = Inr (Some \<lparr>successCount = 2, existingCount = 0, errorCount = 0\<rparr>) \<and>
   map c_domain (company (newdb (snd (migrateCompanies no_json
       (snd (migrateCompanies no_json world_stale_domain))))))
     = [''x.com'', ''y.com'']"
proof (intro conjI)
  show "fst (migrateCompanies no_json world_company_run)
     = Inr (Some \<lparr>successCount = 1, existingCount = 0, errorCount = 0\<rparr>)"
    by code_simp
  show "fst (migrateCompanies no_json (snd (migrateCompanies no_json world_company_run)))
     = Inr (Some \<lparr>successCount = 1, existingCount = 0, errorCount = 0\<rparr>)"
    by code_simp
  show "length (company (newdb (snd (migrateCompanies no_json
       (snd (migrateCompanies no_json world_company_run)))))) = 1"
    by code_simp
  show "fst (migrateCompanies no_json world_stale_domain)
     = Inr (Some \<lparr>successCount = 1, existingCount = 1, errorCount = 0\<rparr>)"
    by code_simp
  show "map c_domain (company (newdb (snd (migrateCompanies no_json world_stale_domain))))
     = [''x.com'']"
    by code_simp
  show "fst (migrateCompanies no_json (snd (migrateCompanies no_json world_stale_domain)))
     = Inr (Some \<lparr>successCount = 2, existingCount = 0, errorCount = 0\<rparr>)"
    by code_simp
  show "map c_domain (company (newdb (snd (migrateCompanies no_json
       (snd (migrateCompanies no_json world_stale_domain))))))
     = [''x.com'', ''y.com'']"
    by code_simp
qed

end
